theory Spec2Isabelle
  imports Complex_Main
begin

section \<open>Failures\<close>

text \<open>
  A thrown exception carries its message: \<open>Error\<close> is what the source throws itself,
  \<open>SyntaxError\<close> is what \<open>BigInt\<close> throws on a string that is not an integer literal,
  \<open>TypeError\<close> is what reading a property of \<open>undefined\<close> throws.
  \<open>Exit n\<close> is \<open>process.exit(n)\<close>.
\<close>

datatype exn = Error string | SyntaxError string | TypeError string

fun message :: "exn \<Rightarrow> string" where
  "message (Error m) = m"
| "message (SyntaxError m) = m"
| "message (TypeError m) = m"

datatype exit = Exit nat

section \<open>Strings and numbers of the host language\<close>

text \<open>
  A string is a list of code units. The functions below only look at code units up to
  \<open>z\<close> (122); every other unit is removed by the first step of
  \<open>generateSCORReference\<close>, so the eight-bit \<^typ>\<open>char\<close> loses nothing there.
\<close>

definition isDigit :: "char \<Rightarrow> bool" where
  "isDigit c \<longleftrightarrow> 48 \<le> (of_char c :: nat) \<and> (of_char c :: nat) \<le> 57"

definition isUpper :: "char \<Rightarrow> bool" where
  "isUpper c \<longleftrightarrow> 65 \<le> (of_char c :: nat) \<and> (of_char c :: nat) \<le> 90"

definition isLower :: "char \<Rightarrow> bool" where
  "isLower c \<longleftrightarrow> 97 \<le> (of_char c :: nat) \<and> (of_char c :: nat) \<le> 122"

text \<open>The character class \<open>[a-zA-Z0-9]\<close>.\<close>

definition isAlnum :: "char \<Rightarrow> bool" where
  "isAlnum c \<longleftrightarrow> isLower c \<or> isUpper c \<or> isDigit c"

text \<open>
  \<open>toUpperCase\<close> on the letters \<open>a\<close>..\<open>z\<close>; the source applies it to a string of
  ASCII letters and digits only, where nothing else changes.
\<close>

definition toUpperCase_char :: "char \<Rightarrow> char" where
  "toUpperCase_char c = (if isLower c then char_of ((of_char c :: nat) - 32) else c)"

definition toUpperCase :: "string \<Rightarrow> string" where
  "toUpperCase s = map toUpperCase_char s"

definition digit_char :: "nat \<Rightarrow> char" where
  "digit_char d = char_of (48 + d)"

text \<open>\<open>Number.prototype.toString()\<close> on an integer: decimal, a minus sign when negative.\<close>

fun toString_nat :: "nat \<Rightarrow> string" where
  "toString_nat n =
     (if n < 10 then [digit_char n] else toString_nat (n div 10) @ [digit_char (n mod 10)])"

declare toString_nat.simps [simp del]

definition toString_int :: "int \<Rightarrow> string" where
  "toString_int i = (if i < 0 then CHR ''-'' # toString_nat (nat (- i)) else toString_nat (nat i))"

text \<open>\<open>s.padStart(n, c)\<close> with a one-character filler.\<close>

definition padStart :: "nat \<Rightarrow> char \<Rightarrow> string \<Rightarrow> string" where
  "padStart n c s = replicate (n - length s) c @ s"

definition digit_val :: "char \<Rightarrow> int" where
  "digit_val c = int (of_char c) - 48"

text \<open>The value of a string of decimal digits, most significant digit first.\<close>

definition decimal_value :: "string \<Rightarrow> int" where
  "decimal_value s = foldl (\<lambda>acc c. 10 * acc + digit_val c) 0 s"

text \<open>
  \<open>BigInt(s)\<close> on a string of decimal digits (the empty string is \<open>0n\<close>). Any other
  character makes it \<open>None\<close>, which the caller turns into the \<open>SyntaxError\<close>: the
  source only passes what \<open>letterToNumber\<close> produced, where a character that is not a
  digit can only be a minus sign inside the text.
\<close>

definition BigInt :: "string \<Rightarrow> int option" where
  "BigInt s = (if list_all isDigit s then Some (decimal_value s) else None)"

section \<open>Structured creditor reference (\<open>invoice-utils.ts\<close>)\<close>

text \<open>
  The callback of both \<open>map\<close> calls: a digit stays, any other character becomes the
  decimal text of its code minus 55.
\<close>

definition letterToNumber :: "char \<Rightarrow> string" where
  "letterToNumber c = (if isDigit c then [c] else toString_int (int (of_char c) - 55))"

definition cleanNumber :: "string \<Rightarrow> string" where
  "cleanNumber invoiceNumber = filter isAlnum invoiceNumber"

definition converted :: "string \<Rightarrow> string" where
  "converted invoiceNumber = concat (map letterToNumber (toUpperCase (cleanNumber invoiceNumber)))"

definition withRF :: "string \<Rightarrow> string" where
  "withRF invoiceNumber = converted invoiceNumber @ ''RF00''"

definition numeric :: "string \<Rightarrow> string" where
  "numeric invoiceNumber = concat (map letterToNumber (withRF invoiceNumber))"

definition generateSCORReference :: "string \<Rightarrow> exn + string" where
  "generateSCORReference invoiceNumber =
     (case BigInt (numeric invoiceNumber) of
        None \<Rightarrow> Inl (SyntaxError (''Cannot convert '' @ numeric invoiceNumber @ '' to a BigInt''))
      | Some n \<Rightarrow>
          (let remainder = n mod 97;
               checkDigits = padStart 2 (CHR ''0'') (toString_int (98 - remainder))
           in Inr (''RF'' @ checkDigits @ cleanNumber invoiceNumber)))"

section \<open>Numbers\<close>

text \<open>
  A number of the host language is a rational or \<open>NaN\<close>. The arithmetic is exact: the
  rounding of doubles and the infinities are not modelled. An operation with \<open>NaN\<close>
  gives \<open>NaN\<close>.
\<close>

datatype number = Num rat | NaN

fun num_add :: "number \<Rightarrow> number \<Rightarrow> number" where
  "num_add (Num a) (Num b) = Num (a + b)"
| "num_add (Num a) NaN = NaN"
| "num_add NaN b = NaN"

fun num_mul :: "number \<Rightarrow> number \<Rightarrow> number" where
  "num_mul (Num a) (Num b) = Num (a * b)"
| "num_mul (Num a) NaN = NaN"
| "num_mul NaN b = NaN"

text \<open>
  The quotient by zero would be an infinity (or \<open>NaN\<close> for zero by zero); the only
  division of the source comes after a test that its divisor is not zero.
\<close>

fun num_div :: "number \<Rightarrow> number \<Rightarrow> number" where
  "num_div (Num a) (Num b) = (if b = 0 then NaN else Num (a / b))"
| "num_div (Num a) NaN = NaN"
| "num_div NaN b = NaN"

text \<open>The sum of a list of numbers, from zero.\<close>

definition num_sum :: "number list \<Rightarrow> number" where
  "num_sum xs = foldl num_add (Num 0) xs"

section \<open>Property lookup\<close>

text \<open>
  The dictionaries of the source are plain objects (\<open>{}\<close>), whose prototype is
  \<open>Object.prototype\<close>. Reading \<open>o[k]\<close> gives the own property \<open>k\<close> when there is
  one, else the property that \<open>Object.prototype\<close> has under that name, else
  \<open>undefined\<close>. The inherited properties are functions, and the prototype object itself
  under \<open>__proto__\<close>: each of them is truthy, and not a number.
\<close>

definition inheritedKeys :: "string list" where
  "inheritedKeys =
     [''constructor'', ''hasOwnProperty'', ''isPrototypeOf'', ''propertyIsEnumerable'',
      ''toLocaleString'', ''toString'', ''valueOf'', ''__proto__'',
      ''__defineGetter__'', ''__defineSetter__'', ''__lookupGetter__'', ''__lookupSetter__'']"

datatype 'v lookup = Own 'v | Inherited | Undefined

definition getProperty :: "(string \<rightharpoonup> 'v) \<Rightarrow> string \<Rightarrow> 'v lookup" where
  "getProperty own k =
     (case own k of
        Some v \<Rightarrow> Own v
      | None \<Rightarrow> if k \<in> set inheritedKeys then Inherited else Undefined)"

section \<open>Currency conversion (\<open>currency-converter.ts\<close>)\<close>

text \<open>
  A rate table is a plain object: its own properties are a map from currency code to
  number.
\<close>

type_synonym ExchangeRates = "string \<rightharpoonup> number"

text \<open>
  The truth value of what \<open>rates[c]\<close> reads: \<open>undefined\<close>, zero and \<open>NaN\<close> are falsy,
  an inherited property is truthy.
\<close>

definition truthy :: "number lookup \<Rightarrow> bool" where
  "truthy v =
     (case v of
        Own (Num x) \<Rightarrow> x \<noteq> 0
      | Own NaN \<Rightarrow> False
      | Inherited \<Rightarrow> True
      | Undefined \<Rightarrow> False)"

text \<open>
  The number that \<open>*\<close> and \<open>/\<close> make of what \<open>rates[c]\<close> reads: a function, an object
  and \<open>undefined\<close> all become \<open>NaN\<close>.
\<close>

definition toNumber :: "number lookup \<Rightarrow> number" where
  "toNumber v = (case v of Own x \<Rightarrow> x | Inherited \<Rightarrow> NaN | Undefined \<Rightarrow> NaN)"

definition noRateError :: "string \<Rightarrow> string \<Rightarrow> exn" where
  "noRateError fromCurrency toCurrency =
     Error (''No conversion rate available for '' @ fromCurrency @ '' to '' @ toCurrency)"

definition convertCurrency :: "number \<Rightarrow> string \<Rightarrow> string \<Rightarrow> ExchangeRates \<Rightarrow> exn + number" where
  "convertCurrency amount fromCurrency toCurrency rates =
     (if fromCurrency = toCurrency then Inr amount
      else if \<not> truthy (getProperty rates fromCurrency) \<or> \<not> truthy (getProperty rates toCurrency)
      then Inl (noRateError fromCurrency toCurrency)
      else
        (let amountInCHF = num_mul amount (toNumber (getProperty rates fromCurrency))
         in Inr (num_div amountInCHF (toNumber (getProperty rates toCurrency)))))"

section \<open>Invoice data (\<open>buchfuehrung\<close> report generator)\<close>

text \<open>The numbers of an invoice file come from a JSON document: they are rationals.\<close>

record InvoiceItem =
  description :: string
  amount :: rat

record Creditor =
  name :: string
  uid :: string
  address :: string
  buildingNumber :: string
  zip :: string
  city :: string
  country :: string
  email :: string
  phone :: string
  iban :: string
  swift :: string
  accountName :: string

record Debtor =
  name :: string
  address :: string
  buildingNumber :: string
  zip :: string
  city :: string
  country :: string

datatype Language = DE | EN | FR | IT

text \<open>
  \<open>number\<close> and \<open>currency\<close> may be missing from the JSON document (\<open>None\<close>);
  \<open>vatRate\<close> may be \<open>null\<close>.
\<close>

record InvoiceData =
  number :: "string option"
  creditor :: Creditor
  debtor :: Debtor
  columns :: "string list"
  items :: "InvoiceItem list"
  language :: Language
  vatRate :: "rat option"
  currency :: "string option"

record ProcessedInvoice =
  client :: string
  month :: string
  fileName :: string
  date :: string
  invoiceNumber :: string
  data :: InvoiceData

text \<open>
  One entry of the directory listing with what the source computes from it through the
  libraries before it builds the processed invoice: \<open>entry\<close> is the name of the file
  (\<open>file\<close> in the source), \<open>json\<close> is the parsed content of the
  file, \<open>isoDate\<close> the text of \<open>date.toISOString()\<close> (already printed at that point),
  \<open>assignedNumber\<close> the result of \<open>generateInvoiceNumberFromFile(filePath, data)\<close>.
\<close>

record InvoiceFile =
  entry :: string
  json :: InvoiceData
  isoDate :: string
  assignedNumber :: string

record ClientSummary =
  totalBilled :: number
  totalBilledCHF :: number
  invoiceCount :: nat
  currency :: string

text \<open>
  The own properties of an object used as a dictionary (\<open>Record<string, _>\<close>) are an
  association list with one entry per key: a store replaces the entry of the key or adds
  one at the end. The host lists keys that are canonical integers (the months 10 to 12)
  before the others; nothing below depends on the order of the entries.
\<close>

type_synonym 'v obj = "(string \<times> 'v) list"

definition obj_get :: "'v obj \<Rightarrow> string \<Rightarrow> 'v lookup" where
  "obj_get m k = getProperty (map_of m) k"

fun obj_set :: "string \<Rightarrow> 'v \<Rightarrow> 'v obj \<Rightarrow> 'v obj" where
  "obj_set k v [] = [(k, v)]"
| "obj_set k v (p # ps) = (if fst p = k then (k, v) # ps else p # obj_set k v ps)"

text \<open>
  What a per-currency total holds: a number, or the text that \<open>+\<close> makes of an
  inherited property and a number (its characters are not modelled; it is not empty).
\<close>

datatype cell = Number number | Text

record MonthEntry =
  total :: number
  totalCHF :: number
  byCurrency :: "cell obj"

record InvoiceSummary =
  client :: string
  month :: string
  date :: string
  invoiceNumber :: string
  amount :: number
  amountCHF :: number
  currency :: string
  items :: nat
  fileName :: string

record Report =
  year :: string
  generatedAt :: string
  exchangeRateDate :: string
  totalRevenue :: "cell obj"
  totalRevenueCHF :: number
  monthlyRevenue :: "MonthEntry obj"
  clientSummary :: "ClientSummary obj"
  invoices :: "InvoiceSummary list"

section \<open>Invoice numbers (\<open>invoice-utils.ts\<close>)\<close>

definition isHexDigit :: "char \<Rightarrow> bool" where
  "isHexDigit c \<longleftrightarrow>
     isDigit c \<or> (97 \<le> (of_char c :: nat) \<and> (of_char c :: nat) \<le> 102)
       \<or> (65 \<le> (of_char c :: nat) \<and> (of_char c :: nat) \<le> 70)"

definition hexDigitValue :: "char \<Rightarrow> int" where
  "hexDigitValue c =
     (if isDigit c then int (of_char c) - 48
      else if 97 \<le> (of_char c :: nat) then int (of_char c) - 87
      else int (of_char c) - 55)"

text \<open>The value of a string of hexadecimal digits, most significant digit first.\<close>

definition hex_value :: "string \<Rightarrow> int" where
  "hex_value s = foldl (\<lambda>acc c. 16 * acc + hexDigitValue c) 0 s"

text \<open>
  \<open>parseInt(s, 16)\<close> on a text that starts with neither white space, a sign nor
  \<open>0x\<close>, as a slice of a hexadecimal digest does: the value of the longest prefix of
  hexadecimal digits, and \<open>NaN\<close> (here \<open>None\<close>) when that prefix is empty.
\<close>

definition parseInt16 :: "string \<Rightarrow> int option" where
  "parseInt16 s =
     (let ds = takeWhile isHexDigit s
      in if ds = [] then None else Some (hex_value ds))"

text \<open>
  The three-character suffix computed from the digest text: the first eight characters
  read in base 16, reduced modulo 1000, printed and padded. \<open>NaN % 1000\<close> is \<open>NaN\<close>,
  printed as such.
\<close>

definition hashSuffix :: "string \<Rightarrow> string" where
  "hashSuffix digestHex =
     (let hash = (case parseInt16 (take 8 digestHex) of
                    None \<Rightarrow> ''NaN''
                  | Some v \<Rightarrow> toString_int (v mod 1000))
      in padStart 3 (CHR ''0'') hash)"

text \<open>\<open>s.slice(-2)\<close>.\<close>

definition sliceLast2 :: "string \<Rightarrow> string" where
  "sliceLast2 s = drop (length s - 2) s"

text \<open>\<open>filePath.split('/').pop() || ''\<close>: the text after the last slash.\<close>

definition lastSegment :: "string \<Rightarrow> string" where
  "lastSegment filePath = rev (takeWhile (\<lambda>c. c \<noteq> CHR ''/'') (rev filePath))"

text \<open>\<open>filename.match(/^(\d{4})-(\d{2})/)\<close>: the two groups, when the pattern matches.\<close>

definition matchYearMonth :: "string \<Rightarrow> (string \<times> string) option" where
  "matchYearMonth filename =
     (if 7 \<le> length filename \<and> list_all isDigit (take 4 filename)
         \<and> filename ! 4 = CHR ''-'' \<and> list_all isDigit (take 2 (drop 5 filename))
      then Some (take 4 filename, take 2 (drop 5 filename))
      else None)"

text \<open>
  The library calls are parameters: \<open>stringify\<close> is \<open>JSON.stringify\<close>, \<open>sha256hex\<close> is
  \<open>createHash("sha256").update(_).digest("hex")\<close>; \<open>fullYear\<close> and \<open>monthIndex\<close>
  are \<open>getFullYear()\<close> and \<open>getMonth()\<close> of the current date.
\<close>

definition generateInvoiceNumber ::
  "(InvoiceData \<Rightarrow> string) \<Rightarrow> (string \<Rightarrow> string) \<Rightarrow> int \<Rightarrow> int \<Rightarrow> InvoiceData \<Rightarrow> string" where
  "generateInvoiceNumber stringify sha256hex fullYear monthIndex d =
     (let year = sliceLast2 (toString_int fullYear);
          month = padStart 2 (CHR ''0'') (toString_int (monthIndex + 1));
          hash = hashSuffix (sha256hex (stringify d))
      in year @ month @ ''-'' @ hash)"

text \<open>
  \<open>if (invoiceData.number)\<close> holds for a number that is present and not the empty text.
\<close>

definition generateInvoiceNumberFromFile ::
  "(InvoiceData \<Rightarrow> string) \<Rightarrow> (string \<Rightarrow> string) \<Rightarrow> int \<Rightarrow> int
     \<Rightarrow> string \<Rightarrow> InvoiceData \<Rightarrow> string" where
  "generateInvoiceNumberFromFile stringify sha256hex fullYear monthIndex filePath invoiceData =
     (let explicit = (case number invoiceData of None \<Rightarrow> [] | Some n \<Rightarrow> n)
      in if explicit \<noteq> [] then explicit
         else
           (case matchYearMonth (lastSegment filePath) of
              None \<Rightarrow> generateInvoiceNumber stringify sha256hex fullYear monthIndex invoiceData
            | Some (y, m) \<Rightarrow>
                (let year = sliceLast2 y;
                     month = m;
                     hash = hashSuffix (sha256hex (stringify invoiceData))
                 in year @ month @ ''-'' @ hash)))"

section \<open>Aggregation (\<open>generateReport\<close>)\<close>

text \<open>\<open>file.substring(5, 7)\<close>.\<close>

definition substring_5_7 :: "string \<Rightarrow> string" where
  "substring_5_7 s = take 2 (drop 5 s)"

text \<open>
  The callback of \<open>invoiceFiles.map\<close>: the client is the name of the debtor, the month
  is cut out of the file name.
\<close>

definition processFile :: "InvoiceFile \<Rightarrow> ProcessedInvoice" where
  "processFile f =
     (let clientName = Debtor.name (debtor (json f));
          mm = substring_5_7 (entry f)
      in \<lparr>ProcessedInvoice.client = clientName,
          ProcessedInvoice.month = mm,
          ProcessedInvoice.fileName = entry f,
          ProcessedInvoice.date = isoDate f,
          ProcessedInvoice.invoiceNumber = assignedNumber f,
          data = json f\<rparr>)"

text \<open>\<open>data.currency || 'CHF'\<close>: a missing or empty currency is CHF.\<close>

definition currencyOf :: "InvoiceData \<Rightarrow> string" where
  "currencyOf d =
     (case InvoiceData.currency d of
        None \<Rightarrow> ''CHF''
      | Some c \<Rightarrow> if c = [] then ''CHF'' else c)"

text \<open>The sum of the item amounts, then VAT when \<open>data.vatRate\<close> is neither null nor zero.\<close>

definition invoiceTotalOf :: "InvoiceData \<Rightarrow> rat" where
  "invoiceTotalOf d =
     (let invoiceTotal = foldl (\<lambda>t item. t + InvoiceItem.amount item) 0 (InvoiceData.items d)
      in case vatRate d of
           None \<Rightarrow> invoiceTotal
         | Some v \<Rightarrow> if v = 0 then invoiceTotal else invoiceTotal + invoiceTotal * (v / 100))"

text \<open>
  The \<open>try\<close>/\<open>catch\<close> around the conversion: the CHF amount and the lines written to
  the console. When the conversion throws, the amount keeps its initial value, the
  invoice total itself.
\<close>

definition invoiceTotalCHFOf :: "ExchangeRates \<Rightarrow> InvoiceData \<Rightarrow> string list \<times> number" where
  "invoiceTotalCHFOf exchangeRates d =
     (let cur = currencyOf d; invoiceTotal = Num (invoiceTotalOf d)
      in if cur \<noteq> ''CHF'' then
           (case convertCurrency invoiceTotal cur ''CHF'' exchangeRates of
              Inr v \<Rightarrow> ([], v)
            | Inl e \<Rightarrow>
                ([''Warning: '' @ message e,
                  ''Using 1:1 rate for '' @ cur @ '' to CHF as fallback''], invoiceTotal))
         else ([], invoiceTotal))"

text \<open>
  \<open>o[k] = (o[k] || 0) + x\<close>, and the same written as a test, a store of zero and \<open>+=\<close>.
  A falsy number counts as zero. An inherited property is truthy, and \<open>+\<close> makes a text
  of it and the number; so it does of a text already stored. The store \<open>o[k] = v\<close> of a
  text or a number under \<open>__proto__\<close> does nothing.
\<close>

definition obj_add :: "string \<Rightarrow> number \<Rightarrow> cell obj \<Rightarrow> cell obj" where
  "obj_add k x m =
     (case obj_get m k of
        Undefined \<Rightarrow> obj_set k (Number (num_add (Num 0) x)) m
      | Own (Number v) \<Rightarrow>
          obj_set k (Number (num_add (if v = NaN \<or> v = Num 0 then Num 0 else v) x)) m
      | Own Text \<Rightarrow> obj_set k Text m
      | Inherited \<Rightarrow> if k = ''__proto__'' then m else obj_set k Text m)"

definition emptyMonth :: MonthEntry where
  "emptyMonth = \<lparr>total = Num 0, totalCHF = Num 0, byCurrency = []\<rparr>"

text \<open>
  The update of the month bucket. Under an inherited name no bucket is created, the two
  sums land on the inherited object, and reading \<open>byCurrency\<close> of it gives \<open>undefined\<close>,
  whose property cannot be read.
\<close>

definition updateMonth ::
  "string \<Rightarrow> string \<Rightarrow> number \<Rightarrow> number \<Rightarrow> MonthEntry obj \<Rightarrow> exn + MonthEntry obj" where
  "updateMonth m cur invoiceTotal invoiceTotalCHF months =
     (case obj_get months m of
        Inherited \<Rightarrow>
          Inl (TypeError (''Cannot read properties of undefined (reading '' @ [CHR 0x27] @ cur
                 @ [CHR 0x27] @ '')''))
      | Undefined \<Rightarrow>
          Inr (obj_set m
                 \<lparr>total = num_add (total emptyMonth) invoiceTotal,
                  totalCHF = num_add (totalCHF emptyMonth) invoiceTotalCHF,
                  byCurrency = obj_add cur invoiceTotal (byCurrency emptyMonth)\<rparr> months)
      | Own e \<Rightarrow>
          Inr (obj_set m
                 \<lparr>total = num_add (total e) invoiceTotal,
                  totalCHF = num_add (totalCHF e) invoiceTotalCHF,
                  byCurrency = obj_add cur invoiceTotal (byCurrency e)\<rparr> months))"

definition newClient :: "string \<Rightarrow> ClientSummary" where
  "newClient cur = \<lparr>totalBilled = Num 0, totalBilledCHF = Num 0, invoiceCount = 0, currency = cur\<rparr>"

definition billClient :: "number \<Rightarrow> number \<Rightarrow> ClientSummary \<Rightarrow> ClientSummary" where
  "billClient invoiceTotal invoiceTotalCHF e =
     \<lparr>totalBilled = num_add (totalBilled e) invoiceTotal,
      totalBilledCHF = num_add (totalBilledCHF e) invoiceTotalCHF,
      invoiceCount = invoiceCount e + 1,
      currency = ClientSummary.currency e\<rparr>"

text \<open>
  The update of the client summary. Under an inherited name the test
  \<open>!report.clientSummary[client]\<close> is false, no entry is created, and the three \<open>+=\<close>
  write to the inherited object: the own properties of \<open>clientSummary\<close> stay as they are.
  (What is written there is \<open>NaN\<close>, which reads like \<open>undefined\<close> in every test of the
  source.)
\<close>

definition updateClient ::
  "string \<Rightarrow> string \<Rightarrow> number \<Rightarrow> number \<Rightarrow> ClientSummary obj \<Rightarrow> ClientSummary obj" where
  "updateClient c cur invoiceTotal invoiceTotalCHF clients =
     (case obj_get clients c of
        Inherited \<Rightarrow> clients
      | Undefined \<Rightarrow> obj_set c (billClient invoiceTotal invoiceTotalCHF (newClient cur)) clients
      | Own e \<Rightarrow> obj_set c (billClient invoiceTotal invoiceTotalCHF e) clients)"

text \<open>\<open>s.split('T')[0]\<close>.\<close>

definition beforeT :: "string \<Rightarrow> string" where
  "beforeT s = takeWhile (\<lambda>c. c \<noteq> CHR ''T'') s"

definition summaryOf :: "ProcessedInvoice \<Rightarrow> number \<Rightarrow> number \<Rightarrow> InvoiceSummary" where
  "summaryOf invoice invoiceTotal invoiceTotalCHF =
     \<lparr>client = ProcessedInvoice.client invoice,
      month = ProcessedInvoice.month invoice,
      date = beforeT (ProcessedInvoice.date invoice),
      invoiceNumber = ProcessedInvoice.invoiceNumber invoice,
      amount = invoiceTotal,
      amountCHF = invoiceTotalCHF,
      currency = currencyOf (data invoice),
      items = length (InvoiceData.items (data invoice)),
      fileName = ProcessedInvoice.fileName invoice\<rparr>"

text \<open>
  The callback of \<open>invoices.forEach\<close>, on the console and the report built so far. It
  gives the new console and report, or the console and the exception thrown.
\<close>

definition processInvoice ::
  "ExchangeRates \<Rightarrow> string list \<times> Report \<Rightarrow> ProcessedInvoice
     \<Rightarrow> (string list \<times> exn) + (string list \<times> Report)" where
  "processInvoice exchangeRates st invoice =
     (let console = fst st; report = snd st;
          cur = currencyOf (data invoice);
          invoiceTotal = Num (invoiceTotalOf (data invoice));
          conv = invoiceTotalCHFOf exchangeRates (data invoice);
          invoiceTotalCHF = snd conv
      in case updateMonth (ProcessedInvoice.month invoice) cur invoiceTotal invoiceTotalCHF
                (monthlyRevenue report) of
           Inl e \<Rightarrow> Inl (console @ fst conv, e)
         | Inr months \<Rightarrow>
             Inr (console @ fst conv,
                  report\<lparr>totalRevenue := obj_add cur invoiceTotal (totalRevenue report),
                         totalRevenueCHF := num_add (totalRevenueCHF report) invoiceTotalCHF,
                         monthlyRevenue := months,
                         clientSummary :=
                           updateClient (ProcessedInvoice.client invoice) cur invoiceTotal
                             invoiceTotalCHF (clientSummary report),
                         invoices :=
                           invoices report @ [summaryOf invoice invoiceTotal invoiceTotalCHF]\<rparr>))"

text \<open>\<open>invoices.forEach\<close>: an exception ends the loop.\<close>

fun forEachInvoice ::
  "ExchangeRates \<Rightarrow> string list \<times> Report \<Rightarrow> ProcessedInvoice list
     \<Rightarrow> (string list \<times> exn) + (string list \<times> Report)" where
  "forEachInvoice exchangeRates st [] = Inr st"
| "forEachInvoice exchangeRates st (invoice # rest) =
     (case processInvoice exchangeRates st invoice of
        Inl e \<Rightarrow> Inl e
      | Inr st' \<Rightarrow> forEachInvoice exchangeRates st' rest)"

text \<open>
  \<open>a.localeCompare(b)\<close> on the date texts: digits and hyphens in one fixed layout, where
  the collation order is the order of the code units.
\<close>

fun localeCompare :: "string \<Rightarrow> string \<Rightarrow> int" where
  "localeCompare [] [] = 0"
| "localeCompare [] (y # ys) = - 1"
| "localeCompare (x # xs) [] = 1"
| "localeCompare (x # xs) (y # ys) =
     (if (of_char x :: nat) < of_char y then - 1
      else if (of_char y :: nat) < of_char x then 1
      else localeCompare xs ys)"

text \<open>\<open>Array.prototype.sort\<close> with the date comparator: a stable sort.\<close>

fun insertByDate :: "InvoiceSummary \<Rightarrow> InvoiceSummary list \<Rightarrow> InvoiceSummary list" where
  "insertByDate a [] = [a]"
| "insertByDate a (b # bs) =
     (if localeCompare (InvoiceSummary.date a) (InvoiceSummary.date b) \<le> 0 then a # b # bs
      else b # insertByDate a bs)"

definition sortByDate :: "InvoiceSummary list \<Rightarrow> InvoiceSummary list" where
  "sortByDate xs = foldr insertByDate xs []"

text \<open>
  The loop over \<open>invoices[1..]\<close> of the consistency check: the first invoice whose
  creditor differs from the first creditor in \<open>name\<close> or \<open>uid\<close>, if any.
\<close>

fun firstMismatch :: "Creditor \<Rightarrow> ProcessedInvoice list \<Rightarrow> ProcessedInvoice option" where
  "firstMismatch firstCreditor [] = None"
| "firstMismatch firstCreditor (invoice # rest) =
     (let currentCreditor = creditor (data invoice)
      in if Creditor.name currentCreditor \<noteq> Creditor.name firstCreditor
            \<or> uid currentCreditor \<noteq> uid firstCreditor
         then Some invoice
         else firstMismatch firstCreditor rest)"

definition creditorText :: "ProcessedInvoice \<Rightarrow> string" where
  "creditorText invoice =
     ''Invoice '' @ ProcessedInvoice.fileName invoice @ '' has creditor: ''
       @ Creditor.name (creditor (data invoice)) @ '' ('' @ uid (creditor (data invoice)) @ '')''"

text \<open>
  The consistency check: the console lines, and the invoice that makes the run exit with
  code 1, if any.
\<close>

definition validateCreditors :: "ProcessedInvoice list \<Rightarrow> string list \<times> ProcessedInvoice option" where
  "validateCreditors invs =
     (case invs of
        first # second # rest \<Rightarrow>
          (case firstMismatch (creditor (data first)) (second # rest) of
             Some bad \<Rightarrow>
               ([''Validating creditor consistency across invoices...'',
                 ''Error: Critical creditor information is inconsistent across invoices'',
                 creditorText first, creditorText bad], Some bad)
           | None \<Rightarrow>
               ([''Validating creditor consistency across invoices...'',
                 ''Critical creditor information is consistent across all invoices''], None))
      | _ \<Rightarrow> ([], None))"

definition emptyReport :: "string \<Rightarrow> string \<Rightarrow> string \<Rightarrow> Report" where
  "emptyReport y now1 now2 =
     \<lparr>year = y, generatedAt = now1, exchangeRateDate = beforeT now2,
      totalRevenue = [], totalRevenueCHF = Num 0, monthlyRevenue = [], clientSummary = [],
      invoices = []\<rparr>"

text \<open>The \<open>forEach\<close> over the invoices, then the sort of the invoice list.\<close>

definition aggregate ::
  "string \<Rightarrow> string \<Rightarrow> string \<Rightarrow> ExchangeRates \<Rightarrow> ProcessedInvoice list
     \<Rightarrow> (string list \<times> exn) + (string list \<times> Report)" where
  "aggregate y now1 now2 exchangeRates invs =
     (case forEachInvoice exchangeRates ([], emptyReport y now1 now2) invs of
        Inl e \<Rightarrow> Inl e
      | Inr st \<Rightarrow> Inr (fst st, (snd st)\<lparr>invoices := sortByDate (invoices (snd st))\<rparr>))"

text \<open>
  The part of \<open>generateReport\<close> between the directory listing and the rendering: the
  processed invoices, the consistency check, the aggregation, the sort. \<open>y\<close> is the year
  of the command line, \<open>now1\<close> and \<open>now2\<close> are the two readings of the clock as ISO
  texts. The result is the console (from the consistency check on) and either the exit
  of the process or the report handed to the renderers. An exception leaves
  \<open>generateReport\<close> as a rejected promise, whose handler prints it and exits with code 1.
\<close>

definition generateReport ::
  "string \<Rightarrow> string \<Rightarrow> string \<Rightarrow> ExchangeRates \<Rightarrow> InvoiceFile list
     \<Rightarrow> string list \<times> (exit + Report)" where
  "generateReport y now1 now2 exchangeRates invoiceFiles =
     (let invs = map processFile invoiceFiles
      in case validateCreditors invs of
           (console, Some bad) \<Rightarrow> (console, Inl (Exit 1))
         | (console, None) \<Rightarrow>
             (case aggregate y now1 now2 exchangeRates invs of
                Inl (console', e) \<Rightarrow>
                  (console @ console' @ [''Error generating report: '' @ message e], Inl (Exit 1))
              | Inr (console', report) \<Rightarrow> (console @ console', Inr report)))"

section \<open>Sample data\<close>

text \<open>One creditor, one debtor, and an invoice with a single item, used as concrete inputs.\<close>

definition sampleCreditor :: Creditor where
  "sampleCreditor =
     \<lparr>Creditor.name = ''Acme GmbH'', uid = ''CHE-123.456.789'', Creditor.address = ''Seestrasse'',
      Creditor.buildingNumber = ''1'', Creditor.zip = ''8000'', Creditor.city = ''Zurich'',
      Creditor.country = ''CH'', email = ''office@acme.example'', phone = ''+41 44 000 00 00'',
      iban = ''CH4431999123000889012'', swift = ''ACMECHZZ'', accountName = ''Acme GmbH''\<rparr>"

definition sampleDebtor :: Debtor where
  "sampleDebtor =
     \<lparr>Debtor.name = ''Client AG'', Debtor.address = ''Bahnhofstrasse'', Debtor.buildingNumber = ''2'',
      Debtor.zip = ''3000'', Debtor.city = ''Bern'', Debtor.country = ''CH''\<rparr>"

definition sampleData :: "Creditor \<Rightarrow> rat \<Rightarrow> string option \<Rightarrow> InvoiceData" where
  "sampleData cr a cur =
     \<lparr>number = None, creditor = cr, debtor = sampleDebtor, columns = [''description'', ''amount''],
      InvoiceData.items = [\<lparr>description = ''Consulting'', InvoiceItem.amount = a\<rparr>],
      language = EN, vatRate = None, InvoiceData.currency = cur\<rparr>"

definition sampleFile :: "string \<Rightarrow> Creditor \<Rightarrow> rat \<Rightarrow> string option \<Rightarrow> InvoiceFile" where
  "sampleFile mm cr a cur =
     \<lparr>entry = ''2025-'' @ mm @ ''-client.json'',
      json = sampleData cr a cur,
      isoDate = ''2025-'' @ mm @ ''-01T00:00:00.000Z'',
      assignedNumber = ''25'' @ mm @ ''-451''\<rparr>"

text \<open>The same file, for a debtor of the given name.\<close>

definition sampleFileFor :: "string \<Rightarrow> string \<Rightarrow> rat \<Rightarrow> string option \<Rightarrow> InvoiceFile" where
  "sampleFileFor debtorName mm a cur =
     (sampleFile mm sampleCreditor a cur)
       \<lparr>json := (sampleData sampleCreditor a cur)
                   \<lparr>debtor := sampleDebtor\<lparr>Debtor.name := debtorName\<rparr>\<rparr>\<rparr>"

definition sampleRates :: ExchangeRates where
  "sampleRates = map_of [(''CHF'', Num 1), (''EUR'', Num (21 / 20))]"

text \<open>The report of the sample run: 100 CHF in March, 50 EUR in January.\<close>

definition sampleReport :: Report where
  "sampleReport =
     \<lparr>year = ''2025'', generatedAt = ''2025-11-03T10:00:00.000Z'', exchangeRateDate = ''2025-11-03'',
      totalRevenue = [(''CHF'', Number (Num 100)), (''EUR'', Number (Num 50))],
      totalRevenueCHF = Num (305 / 2),
      monthlyRevenue =
        [(''03'', \<lparr>total = Num 100, totalCHF = Num 100,
                   byCurrency = [(''CHF'', Number (Num 100))]\<rparr>),
         (''01'', \<lparr>total = Num 50, totalCHF = Num (105 / 2),
                   byCurrency = [(''EUR'', Number (Num 50))]\<rparr>)],
      clientSummary =
        [(''Client AG'', \<lparr>totalBilled = Num 150, totalBilledCHF = Num (305 / 2), invoiceCount = 2,
                           currency = ''CHF''\<rparr>)],
      invoices =
        [summaryOf (processFile (sampleFile ''01'' sampleCreditor 50 (Some ''EUR''))) (Num 50)
           (Num (105 / 2)),
         summaryOf (processFile (sampleFile ''03'' sampleCreditor 100 None)) (Num 100) (Num 100)]\<rparr>"

text \<open>
  Stand-ins for the two library functions: a serialization that is always \<open>{}\<close>, and
  the SHA-256 digest of that text.
\<close>

definition sampleStringify :: "InvoiceData \<Rightarrow> string" where
  "sampleStringify d = ''{}''"

definition sampleSha256hex :: "string \<Rightarrow> string" where
  "sampleSha256hex s = ''44136fa355b3678a1146ad16f7e8649e94fb4fc21fe77e8310c060f61caaff8a''"

section \<open>Decimal texts\<close>

lemma isDigit_digit_char: "d < 10 \<Longrightarrow> isDigit (digit_char d)"
  by (simp add: isDigit_def digit_char_def)

lemma digit_val_digit_char: "d < 10 \<Longrightarrow> digit_val (digit_char d) = int d"
  by (simp add: digit_val_def digit_char_def)

lemma toString_nat_digits: "list_all isDigit (toString_nat n)"
proof (induction n rule: toString_nat.induct)
  case (1 n)
  show ?case
  proof (cases "n < 10")
    case True
    then show ?thesis by (simp add: toString_nat.simps [of n] isDigit_digit_char)
  next
    case False
    with 1 show ?thesis by (simp add: toString_nat.simps [of n] isDigit_digit_char)
  qed
qed

lemma decimal_value_snoc: "decimal_value (s @ [c]) = 10 * decimal_value s + digit_val c"
  by (simp add: decimal_value_def)

lemma decimal_value_toString_nat: "decimal_value (toString_nat n) = int n"
proof (induction n rule: toString_nat.induct)
  case (1 n)
  show ?case
  proof (cases "n < 10")
    case True
    then show ?thesis
      by (simp add: toString_nat.simps [of n] decimal_value_def digit_val_digit_char)
  next
    case False
    with 1 have "decimal_value (toString_nat (n div 10)) = int (n div 10)" by simp
    moreover have "int n = 10 * int (n div 10) + int (n mod 10)"
      by (simp add: zdiv_int zmod_int)
    ultimately show ?thesis using False
      by (simp add: toString_nat.simps [of n] decimal_value_snoc digit_val_digit_char)
  qed
qed

lemma decimal_value_zeros: "decimal_value (replicate k (CHR ''0'') @ s) = decimal_value s"
proof -
  have "foldl (\<lambda>acc c. 10 * acc + digit_val c) 0 (replicate k (CHR ''0'')) = 0"
    by (induction k) (simp_all add: digit_val_def)
  then show ?thesis by (simp add: decimal_value_def)
qed

lemma length_toString_nat_lt10: "n < 10 \<Longrightarrow> length (toString_nat n) = 1"
  by (simp add: toString_nat.simps [of n])

lemma length_toString_nat_lt100: "n < 100 \<Longrightarrow> length (toString_nat n) \<le> 2"
  by (simp add: toString_nat.simps [of n] length_toString_nat_lt10)

lemma length_toString_nat_lt1000: "n < 1000 \<Longrightarrow> length (toString_nat n) \<le> 3"
  using length_toString_nat_lt100 [of "n div 10"]
  by (simp add: toString_nat.simps [of n])

lemma padStart_length: "length s \<le> n \<Longrightarrow> length (padStart n c s) = n"
  by (simp add: padStart_def)

lemma padStart_digits: "list_all isDigit s \<Longrightarrow> list_all isDigit (padStart n (CHR ''0'') s)"
  by (auto simp add: padStart_def isDigit_def list_all_iff)

lemma decimal_value_padStart: "decimal_value (padStart n (CHR ''0'') s) = decimal_value s"
  by (simp add: padStart_def decimal_value_zeros)

section \<open>Properties of the structured reference\<close>

lemma toString_int_digits: "0 \<le> i \<Longrightarrow> list_all isDigit (toString_int i)"
  by (simp add: toString_int_def toString_nat_digits)

lemma letterToNumber_digit: "isDigit c \<Longrightarrow> letterToNumber c = [c]"
  by (simp add: letterToNumber_def)

lemma letterToNumber_upper: "isUpper c \<Longrightarrow> list_all isDigit (letterToNumber c)"
  by (simp add: letterToNumber_def isUpper_def toString_int_digits)

lemma toUpperCase_char_alnum: "isAlnum c \<Longrightarrow> isDigit (toUpperCase_char c) \<or> isUpper (toUpperCase_char c)"
  by (auto simp add: toUpperCase_char_def isAlnum_def isUpper_def isLower_def isDigit_def)

lemma concat_letterToNumber_digits: "list_all isDigit s \<Longrightarrow> concat (map letterToNumber s) = s"
  by (induction s) (simp_all add: letterToNumber_digit)

lemma converted_digits: "list_all isDigit (converted s)"
proof -
  have "\<forall>c \<in> set (toUpperCase (cleanNumber s)). list_all isDigit (letterToNumber c)"
  proof
    fix c assume "c \<in> set (toUpperCase (cleanNumber s))"
    then obtain c0 where "isAlnum c0" "c = toUpperCase_char c0"
      by (auto simp add: toUpperCase_def cleanNumber_def)
    then have "isDigit c \<or> isUpper c" by (simp add: toUpperCase_char_alnum)
    then show "list_all isDigit (letterToNumber c)"
      by (auto simp add: letterToNumber_digit letterToNumber_upper)
  qed
  then show ?thesis
    by (simp add: converted_def list_all_iff)
qed

lemma letterToNumber_RF00: "concat (map letterToNumber ''RF00'') = ''271500''"
  by code_simp

lemma numeric_eq: "numeric s = converted s @ ''271500''"
  using concat_letterToNumber_digits [OF converted_digits [of s]] letterToNumber_RF00
  by (simp add: numeric_def withRF_def)

lemma numeric_digits: "list_all isDigit (numeric s)"
  using converted_digits [of s] by (simp add: numeric_eq isDigit_def)

lemma BigInt_numeric: "BigInt (numeric s) = Some (decimal_value (numeric s))"
  by (simp add: BigInt_def numeric_digits)

lemma decimal_value_nonneg: "list_all isDigit s \<Longrightarrow> 0 \<le> decimal_value s"
proof (induction s rule: rev_induct)
  case Nil
  show ?case by (simp add: decimal_value_def)
next
  case (snoc c s)
  then show ?case by (simp add: decimal_value_snoc digit_val_def isDigit_def)
qed

lemma BigInt_nonneg: "BigInt s = Some n \<Longrightarrow> 0 \<le> n"
  by (auto simp add: BigInt_def decimal_value_nonneg split: if_splits)

text \<open>The two check characters, for a remainder in range.\<close>

lemma checkDigits_props:
  assumes "0 \<le> r" "r < 97"
  defines "cd \<equiv> padStart 2 (CHR ''0'') (toString_int (98 - r))"
  shows "length cd = 2" and "list_all isDigit cd" and "decimal_value cd = 98 - r"
proof -
  from assms(1,2) have k: "toString_int (98 - r) = toString_nat (nat (98 - r))" "nat (98 - r) < 100"
    by (simp_all add: toString_int_def)
  show "length cd = 2"
    unfolding cd_def k(1) by (rule padStart_length) (rule length_toString_nat_lt100 [OF k(2)])
  show "list_all isDigit cd"
    unfolding cd_def k(1) by (rule padStart_digits) (rule toString_nat_digits)
  show "decimal_value cd = 98 - r"
    unfolding cd_def k(1) using assms(1,2)
    by (simp add: decimal_value_padStart decimal_value_toString_nat)
qed

lemma generateSCORReference_eq:
  "generateSCORReference s =
     Inr (''RF'' @ padStart 2 (CHR ''0'') (toString_int (98 - decimal_value (numeric s) mod 97))
            @ cleanNumber s)"
  by (simp add: generateSCORReference_def BigInt_numeric)

text \<open>
  Claim C7. Whenever the generator returns a reference, the reference is \<open>RF\<close>, two
  check characters, and the cleaned invoice number; the two characters are decimal digits
  whose value is 98 minus the remainder modulo 97, and lies between 2 and 98.
\<close>

theorem generateSCORReference_check_digits:
  assumes "generateSCORReference s = Inr r"
  shows "\<exists>cd. r = ''RF'' @ cd @ cleanNumber s \<and> length cd = 2 \<and> list_all isDigit cd
           \<and> 2 \<le> decimal_value cd \<and> decimal_value cd \<le> 98
           \<and> decimal_value cd = 98 - decimal_value (numeric s) mod 97"
proof -
  let ?m = "decimal_value (numeric s) mod 97"
  let ?cd = "padStart 2 (CHR ''0'') (toString_int (98 - ?m))"
  have m: "0 \<le> ?m" "?m < 97" by simp_all
  from assms have "r = ''RF'' @ ?cd @ cleanNumber s"
    by (simp add: generateSCORReference_eq)
  moreover have "length ?cd = 2" "list_all isDigit ?cd" "decimal_value ?cd = 98 - ?m"
    using checkDigits_props [OF m] by simp_all
  moreover have "2 \<le> 98 - ?m" "98 - ?m \<le> 98" using m by linarith+
  ultimately show ?thesis by auto
qed

text \<open>Claim C7 at the invoice number \<open>2503-451\<close>.\<close>

theorem generateSCORReference_check_digits_witness:
  "generateSCORReference ''2503-451'' = Inr ''RF162503451''
   \<and> (\<exists>cd. ''RF162503451'' = ''RF'' @ cd @ cleanNumber ''2503-451'' \<and> length cd = 2 \<and> list_all isDigit cd
           \<and> 2 \<le> decimal_value cd \<and> decimal_value cd \<le> 98
           \<and> decimal_value cd = 98 - decimal_value (numeric ''2503-451'') mod 97)"
proof -
  have h: "generateSCORReference ''2503-451'' = Inr ''RF162503451''" by code_simp
  show ?thesis using h generateSCORReference_check_digits [OF h] by simp
qed

text \<open>
  Claim C2, as amended. The generator returns a reference for every input, also when no
  letter or digit survives the cleaning; the reference is then \<open>RF04\<close>. It has no
  failing case.
\<close>

theorem generateSCORReference_total:
  "(\<exists>r. generateSCORReference s = Inr r)
   \<and> (cleanNumber s = [] \<longrightarrow> generateSCORReference s = Inr ''RF04'')"
proof
  show "\<exists>r. generateSCORReference s = Inr r" by (simp add: generateSCORReference_eq)
  show "cleanNumber s = [] \<longrightarrow> generateSCORReference s = Inr ''RF04''"
  proof
    assume e: "cleanNumber s = []"
    then have "numeric s = ''271500''" by (simp add: numeric_eq converted_def toUpperCase_def)
    moreover have "padStart 2 (CHR ''0'') (toString_int (98 - decimal_value ''271500'' mod 97)) = ''04''"
      by code_simp
    ultimately show "generateSCORReference s = Inr ''RF04''"
      using e by (simp add: generateSCORReference_eq)
  qed
qed

text \<open>Claim C2, as amended, at an input of blanks and punctuation.\<close>

theorem generateSCORReference_total_witness:
  "cleanNumber '' - / '' = [] \<and> generateSCORReference '' - / '' = Inr ''RF04''"
proof -
  have h: "cleanNumber '' - / '' = []" by code_simp
  show ?thesis using h generateSCORReference_total [of "'' - / ''"] by simp
qed

text \<open>
  Claim C2 as stated fails: the cleaned form of \<open>--\<close> is empty, and the generator
  returns a reference instead of failing.
\<close>

theorem generateSCORReference_empty_counterexample:
  "cleanNumber ''--'' = [] \<and> generateSCORReference ''--'' = Inr ''RF04''"
  by code_simp

text \<open>
  Claim C1 as stated fails: the reference of \<open>A1\<close> is not \<open>RF42A1\<close>, and the
  digit text is not \<open>101273100\<close>, since \<open>F\<close> is mapped to 15 and not to 31.
\<close>

theorem generateSCORReference_A1_counterexample:
  "generateSCORReference ''A1'' \<noteq> Inr ''RF42A1'' \<and> numeric ''A1'' \<noteq> ''101273100''"
  by code_simp

text \<open>
  Claim C1, as amended. The reference of \<open>A1\<close> is \<open>RF90A1\<close>: the cleaned payload
  \<open>A1\<close> gives the digits \<open>101\<close>; with \<open>RF00\<close> appended and the letters mapped
  (\<open>R\<close> to 27, \<open>F\<close> to 15) the digit text is \<open>101271500\<close>; its remainder modulo
  97 is 8; the check digits are 98 - 8 = 90.
\<close>

theorem generateSCORReference_A1:
  "generateSCORReference ''A1'' = Inr ''RF90A1''
   \<and> cleanNumber ''A1'' = ''A1'' \<and> converted ''A1'' = ''101''
   \<and> withRF ''A1'' = ''101RF00'' \<and> numeric ''A1'' = ''101271500''
   \<and> letterToNumber (CHR ''R'') = ''27'' \<and> letterToNumber (CHR ''F'') = ''15''
   \<and> BigInt (numeric ''A1'') = Some 101271500 \<and> (101271500 :: int) mod 97 = 8
   \<and> padStart 2 (CHR ''0'') (toString_int (98 - 8)) = ''90''"
  by code_simp

section \<open>Properties of the currency conversion\<close>

text \<open>
  Claim C10. A conversion from a currency to itself returns the amount, whatever the rate
  table holds, also a table with no entry for the currency: the test for equal
  currencies comes before any lookup, so this case has no failure.
\<close>

theorem convertCurrency_same_currency: "convertCurrency x c c r = Inr x"
  by (simp add: convertCurrency_def)

text \<open>Claim C10 on 10 USD, a currency for which the sample table has no entry.\<close>

theorem convertCurrency_same_currency_witness:
  "sampleRates ''USD'' = None
   \<and> convertCurrency (Num 10) ''USD'' ''USD'' sampleRates = Inr (Num 10)"
  using convertCurrency_same_currency [of "Num 10" "''USD''" sampleRates]
  by (simp add: sampleRates_def)

lemma getProperty_own: "r k = Some v \<Longrightarrow> getProperty r k = Own v"
  by (simp add: getProperty_def)


lemma getProperty_inherited:
  "k \<in> set inheritedKeys \<Longrightarrow> r k = None \<Longrightarrow> getProperty r k = Inherited"
  by (simp add: getProperty_def)




text \<open>
  The case that the amended claim leaves out: \<open>constructor\<close> has no entry in the table,
  but the lookup finds the inherited property, the test passes, and the result is
  \<open>NaN\<close>.
\<close>

lemma convertCurrency_inherited_key:
  "map_of [(''CHF'', Num 1)] ''constructor'' = None
   \<and> convertCurrency (Num 10) ''constructor'' ''CHF'' (map_of [(''CHF'', Num 1)]) = Inr NaN"
  by code_simp

text \<open>
  Claim C8. With non-zero rates for both currencies in the table, converting from A to B
  and back from B to A returns the amount one started with, exactly.
\<close>

theorem convertCurrency_round_trip:
  assumes "r A = Some (Num a)" and "r B = Some (Num b)" and "a \<noteq> 0" and "b \<noteq> 0"
  shows "\<exists>y. convertCurrency (Num x) A B r = Inr y \<and> convertCurrency y B A r = Inr (Num x)"
  using assms
  by (cases "A = B")
    (auto simp add: convertCurrency_def getProperty_own truthy_def toNumber_def)

text \<open>Claim C8 on 50 EUR, to CHF and back.\<close>

theorem convertCurrency_round_trip_witness:
  "sampleRates ''EUR'' = Some (Num (21 / 20)) \<and> sampleRates ''CHF'' = Some (Num 1)
   \<and> (21 / 20 :: rat) \<noteq> 0 \<and> (1 :: rat) \<noteq> 0
   \<and> convertCurrency (Num 50) ''EUR'' ''CHF'' sampleRates = Inr (Num (105 / 2))
   \<and> convertCurrency (Num (105 / 2)) ''CHF'' ''EUR'' sampleRates = Inr (Num 50)"
proof -
  have h: "sampleRates ''EUR'' = Some (Num (21 / 20))" "sampleRates ''CHF'' = Some (Num 1)"
    "(21 / 20 :: rat) \<noteq> 0" "(1 :: rat) \<noteq> 0"
    by (simp_all add: sampleRates_def)
  have e: "convertCurrency (Num 50) ''EUR'' ''CHF'' sampleRates = Inr (Num (105 / 2))"
    "convertCurrency (Num (105 / 2)) ''CHF'' ''EUR'' sampleRates = Inr (Num 50)"
    by code_simp+
  show ?thesis
    using convertCurrency_round_trip [OF h, of 50] h e by simp
qed

section \<open>Properties of the aggregation\<close>

subsection \<open>Sums of numbers\<close>

lemma num_add_commute: "num_add a b = num_add b a"
  by (cases a; cases b) simp_all

lemma num_add_assoc: "num_add (num_add a b) c = num_add a (num_add b c)"
  by (cases a; cases b; cases c) simp_all

lemma num_add_zero: "num_add (Num 0) a = a" "num_add a (Num 0) = a"
  by (cases a; simp)+

lemma foldl_num_add: "foldl num_add a xs = num_add a (num_sum xs)"
proof (induction xs rule: rev_induct)
  case Nil
  show ?case by (simp add: num_sum_def num_add_zero)
next
  case (snoc x xs)
  then show ?case by (simp add: num_sum_def num_add_assoc)
qed

lemma num_sum_Nil: "num_sum [] = Num 0"
  by (simp add: num_sum_def)

lemma num_sum_Cons: "num_sum (x # xs) = num_add x (num_sum xs)"
  using foldl_num_add [of x xs] by (simp add: num_sum_def num_add_zero)

lemma num_sum_snoc: "num_sum (xs @ [x]) = num_add (num_sum xs) x"
  by (simp add: num_sum_def)

subsection \<open>Stores and lookups\<close>

lemma keys_obj_set: "set (map fst (obj_set k v m)) = insert k (set (map fst m))"
  by (induction m) auto

lemma distinct_obj_set: "distinct (map fst m) \<Longrightarrow> distinct (map fst (obj_set k v m))"
proof (induction m)
  case Nil
  show ?case by simp
next
  case (Cons p ps)
  then show ?case using keys_obj_set [of k v ps] by auto
qed

lemma obj_get_cases:
  "obj_get m k =
     (case map_of m k of
        Some v \<Rightarrow> Own v
      | None \<Rightarrow> if k \<in> set inheritedKeys then Inherited else Undefined)"
  by (simp add: obj_get_def getProperty_def)

text \<open>The sum of one field over the entries, after a store that adds to that field.\<close>

lemma sum_obj_set_own:
  assumes "map_of m k = Some e" and "f v = num_add (f e) x"
  shows "num_sum (map (\<lambda>p. f (snd p)) (obj_set k v m))
           = num_add (num_sum (map (\<lambda>p. f (snd p)) m)) x"
  using assms(1)
proof (induction m)
  case Nil
  then show ?case by simp
next
  case (Cons p ps)
  show ?case
  proof (cases "fst p = k")
    case True
    with Cons.prems have "snd p = e" by (cases p) simp
    with True show ?thesis
      by (simp add: num_sum_Cons assms(2) num_add_assoc num_add_commute [of x])
  next
    case False
    with Cons.prems have "map_of ps k = Some e" by (cases p) simp
    with False Cons.IH show ?thesis
      by (simp add: num_sum_Cons num_add_assoc)
  qed
qed

lemma sum_obj_set_new:
  assumes "map_of m k = None"
  shows "num_sum (map (\<lambda>p. f (snd p)) (obj_set k v m))
           = num_add (num_sum (map (\<lambda>p. f (snd p)) m)) (f v)"
  using assms
proof (induction m)
  case Nil
  show ?case by (simp add: num_sum_Cons num_sum_Nil num_add_zero)
next
  case (Cons p ps)
  then have "fst p \<noteq> k" "map_of ps k = None" by (cases p; simp split: if_splits)+
  with Cons.IH show ?case by (simp add: num_sum_Cons num_add_assoc)
qed

subsection \<open>The client summary\<close>

lemma sum_updateClient:
  assumes "c \<notin> set inheritedKeys"
  shows "num_sum (map (\<lambda>p. totalBilledCHF (snd p)) (updateClient c cur t tchf cs))
           = num_add (num_sum (map (\<lambda>p. totalBilledCHF (snd p)) cs)) tchf"
proof (cases "map_of cs c")
  case None
  with assms show ?thesis
    by (simp add: updateClient_def obj_get_cases sum_obj_set_new billClient_def newClient_def
        num_add_zero)
next
  case (Some e)
  then show ?thesis
    by (simp add: updateClient_def obj_get_cases sum_obj_set_own [OF Some] billClient_def)
qed

lemma distinct_updateClient:
  "distinct (map fst cs) \<Longrightarrow> distinct (map fst (updateClient c cur t tchf cs))"
  by (simp add: updateClient_def distinct_obj_set split: lookup.splits)

text \<open>Under an inherited name the client summary is left as it is.\<close>

lemma updateClient_inherited:
  "c \<in> set inheritedKeys \<Longrightarrow> map_of cs c = None \<Longrightarrow> updateClient c cur t tchf cs = cs"
  by (simp add: updateClient_def obj_get_cases)

subsection \<open>The month buckets\<close>

lemma substring_5_7_not_inherited: "substring_5_7 s \<notin> set inheritedKeys"
proof
  assume "substring_5_7 s \<in> set inheritedKeys"
  moreover have "\<forall>k \<in> set inheritedKeys. 7 \<le> length k"
    by (simp add: inheritedKeys_def)
  ultimately have "7 \<le> length (substring_5_7 s)" by blast
  then show False by (simp add: substring_5_7_def)
qed

lemma month_processFile: "ProcessedInvoice.month (processFile f) \<notin> set inheritedKeys"
  by (simp add: processFile_def Let_def substring_5_7_not_inherited)

lemma updateMonth_plain:
  assumes "m \<notin> set inheritedKeys"
  shows "\<exists>ms'. updateMonth m cur t tchf ms = Inr ms'
           \<and> num_sum (map (\<lambda>p. totalCHF (snd p)) ms')
               = num_add (num_sum (map (\<lambda>p. totalCHF (snd p)) ms)) tchf
           \<and> (distinct (map fst ms) \<longrightarrow> distinct (map fst ms'))"
proof (cases "map_of ms m")
  case None
  with assms show ?thesis
    by (simp add: updateMonth_def obj_get_cases sum_obj_set_new emptyMonth_def num_add_zero
        distinct_obj_set)
next
  case (Some e)
  then show ?thesis
    by (simp add: updateMonth_def obj_get_cases sum_obj_set_own [OF Some] distinct_obj_set)
qed

subsection \<open>One step of the loop\<close>

lemma processInvoice_plain:
  assumes "ProcessedInvoice.month i \<notin> set inheritedKeys"
  shows "\<exists>st'. processInvoice rates st i = Inr st'
     \<and> fst st' = fst st @ fst (invoiceTotalCHFOf rates (data i))
     \<and> totalRevenueCHF (snd st')
         = num_add (totalRevenueCHF (snd st)) (snd (invoiceTotalCHFOf rates (data i)))
     \<and> clientSummary (snd st')
         = updateClient (ProcessedInvoice.client i) (currencyOf (data i))
             (Num (invoiceTotalOf (data i))) (snd (invoiceTotalCHFOf rates (data i)))
             (clientSummary (snd st))
     \<and> num_sum (map (\<lambda>p. totalCHF (snd p)) (monthlyRevenue (snd st')))
         = num_add (num_sum (map (\<lambda>p. totalCHF (snd p)) (monthlyRevenue (snd st))))
             (snd (invoiceTotalCHFOf rates (data i)))
     \<and> (distinct (map fst (monthlyRevenue (snd st)))
           \<longrightarrow> distinct (map fst (monthlyRevenue (snd st'))))
     \<and> invoices (snd st')
         = invoices (snd st)
             @ [summaryOf i (Num (invoiceTotalOf (data i))) (snd (invoiceTotalCHFOf rates (data i)))]"
proof -
  from updateMonth_plain [OF assms]
  obtain ms' where ms: "updateMonth (ProcessedInvoice.month i) (currencyOf (data i))
        (Num (invoiceTotalOf (data i))) (snd (invoiceTotalCHFOf rates (data i)))
        (monthlyRevenue (snd st)) = Inr ms'"
    "num_sum (map (\<lambda>p. totalCHF (snd p)) ms')
       = num_add (num_sum (map (\<lambda>p. totalCHF (snd p)) (monthlyRevenue (snd st))))
           (snd (invoiceTotalCHFOf rates (data i)))"
    "distinct (map fst (monthlyRevenue (snd st))) \<longrightarrow> distinct (map fst ms')"
    by blast
  show ?thesis
    using ms(2,3) by (simp add: processInvoice_def Let_def ms(1))
qed

subsection \<open>The whole loop\<close>

text \<open>
  The loop over invoices whose months are not inherited names runs to its end; the lemma
  gives the console, the CHF total and the invoice list after it, and carries the two
  agreements of sums through it.
\<close>

lemma forEachInvoice_plain:
  assumes "\<forall>i \<in> set invs. ProcessedInvoice.month i \<notin> set inheritedKeys"
  shows "\<exists>st'. forEachInvoice rates st invs = Inr st'
     \<and> fst st' = fst st @ concat (map (\<lambda>i. fst (invoiceTotalCHFOf rates (data i))) invs)
     \<and> totalRevenueCHF (snd st')
         = foldl num_add (totalRevenueCHF (snd st))
             (map (\<lambda>i. snd (invoiceTotalCHFOf rates (data i))) invs)
     \<and> invoices (snd st')
         = invoices (snd st)
             @ map (\<lambda>i. summaryOf i (Num (invoiceTotalOf (data i)))
                          (snd (invoiceTotalCHFOf rates (data i)))) invs
     \<and> (num_sum (map (\<lambda>p. totalCHF (snd p)) (monthlyRevenue (snd st))) = totalRevenueCHF (snd st)
          \<longrightarrow> num_sum (map (\<lambda>p. totalCHF (snd p)) (monthlyRevenue (snd st')))
                = totalRevenueCHF (snd st'))
     \<and> (distinct (map fst (monthlyRevenue (snd st)))
          \<longrightarrow> distinct (map fst (monthlyRevenue (snd st'))))
     \<and> (distinct (map fst (clientSummary (snd st)))
          \<longrightarrow> distinct (map fst (clientSummary (snd st'))))
     \<and> ((\<forall>i \<in> set invs. ProcessedInvoice.client i \<notin> set inheritedKeys)
          \<and> num_sum (map (\<lambda>p. totalBilledCHF (snd p)) (clientSummary (snd st)))
              = totalRevenueCHF (snd st)
          \<longrightarrow> num_sum (map (\<lambda>p. totalBilledCHF (snd p)) (clientSummary (snd st')))
                = totalRevenueCHF (snd st'))"
  using assms
proof (induction invs arbitrary: st)
  case Nil
  show ?case by simp
next
  case (Cons i rest)
  from Cons.prems have mi: "ProcessedInvoice.month i \<notin> set inheritedKeys"
    and mr: "\<forall>i \<in> set rest. ProcessedInvoice.month i \<notin> set inheritedKeys"
    by simp_all
  from processInvoice_plain [OF mi, of rates st]
  obtain st1 where s1: "processInvoice rates st i = Inr st1"
    "fst st1 = fst st @ fst (invoiceTotalCHFOf rates (data i))"
    "totalRevenueCHF (snd st1)
       = num_add (totalRevenueCHF (snd st)) (snd (invoiceTotalCHFOf rates (data i)))"
    "clientSummary (snd st1)
       = updateClient (ProcessedInvoice.client i) (currencyOf (data i))
           (Num (invoiceTotalOf (data i))) (snd (invoiceTotalCHFOf rates (data i)))
           (clientSummary (snd st))"
    "num_sum (map (\<lambda>p. totalCHF (snd p)) (monthlyRevenue (snd st1)))
       = num_add (num_sum (map (\<lambda>p. totalCHF (snd p)) (monthlyRevenue (snd st))))
           (snd (invoiceTotalCHFOf rates (data i)))"
    "distinct (map fst (monthlyRevenue (snd st)))
       \<longrightarrow> distinct (map fst (monthlyRevenue (snd st1)))"
    "invoices (snd st1)
       = invoices (snd st)
           @ [summaryOf i (Num (invoiceTotalOf (data i))) (snd (invoiceTotalCHFOf rates (data i)))]"
    by blast
  from Cons.IH [OF mr, of st1]
  obtain st' where s': "forEachInvoice rates st1 rest = Inr st'"
    "fst st' = fst st1 @ concat (map (\<lambda>i. fst (invoiceTotalCHFOf rates (data i))) rest)"
    "totalRevenueCHF (snd st')
       = foldl num_add (totalRevenueCHF (snd st1))
           (map (\<lambda>i. snd (invoiceTotalCHFOf rates (data i))) rest)"
    "invoices (snd st')
       = invoices (snd st1)
           @ map (\<lambda>i. summaryOf i (Num (invoiceTotalOf (data i)))
                        (snd (invoiceTotalCHFOf rates (data i)))) rest"
    "num_sum (map (\<lambda>p. totalCHF (snd p)) (monthlyRevenue (snd st1))) = totalRevenueCHF (snd st1)
       \<longrightarrow> num_sum (map (\<lambda>p. totalCHF (snd p)) (monthlyRevenue (snd st')))
             = totalRevenueCHF (snd st')"
    "distinct (map fst (monthlyRevenue (snd st1)))
       \<longrightarrow> distinct (map fst (monthlyRevenue (snd st')))"
    "distinct (map fst (clientSummary (snd st1)))
       \<longrightarrow> distinct (map fst (clientSummary (snd st')))"
    "(\<forall>i \<in> set rest. ProcessedInvoice.client i \<notin> set inheritedKeys)
       \<and> num_sum (map (\<lambda>p. totalBilledCHF (snd p)) (clientSummary (snd st1)))
           = totalRevenueCHF (snd st1)
       \<longrightarrow> num_sum (map (\<lambda>p. totalBilledCHF (snd p)) (clientSummary (snd st')))
             = totalRevenueCHF (snd st')"
    by blast
  have run: "forEachInvoice rates st (i # rest) = Inr st'"
    by (simp add: s1(1) s'(1))
  have con: "fst st' = fst st @ concat (map (\<lambda>i. fst (invoiceTotalCHFOf rates (data i))) (i # rest))"
    by (simp add: s'(2) s1(2))
  have tot: "totalRevenueCHF (snd st')
       = foldl num_add (totalRevenueCHF (snd st))
           (map (\<lambda>i. snd (invoiceTotalCHFOf rates (data i))) (i # rest))"
    by (simp add: s'(3) s1(3))
  have inv: "invoices (snd st')
       = invoices (snd st)
           @ map (\<lambda>i. summaryOf i (Num (invoiceTotalOf (data i)))
                        (snd (invoiceTotalCHFOf rates (data i)))) (i # rest)"
    by (simp add: s'(4) s1(7))
  have mon: "num_sum (map (\<lambda>p. totalCHF (snd p)) (monthlyRevenue (snd st))) = totalRevenueCHF (snd st)
       \<longrightarrow> num_sum (map (\<lambda>p. totalCHF (snd p)) (monthlyRevenue (snd st')))
             = totalRevenueCHF (snd st')"
    using s'(5) by (simp add: s1(3,5))
  have dm: "distinct (map fst (monthlyRevenue (snd st)))
       \<longrightarrow> distinct (map fst (monthlyRevenue (snd st')))"
    using s1(6) s'(6) by blast
  have dc: "distinct (map fst (clientSummary (snd st)))
       \<longrightarrow> distinct (map fst (clientSummary (snd st')))"
    using s'(7) by (simp add: s1(4) distinct_updateClient)
  have cli: "(\<forall>i \<in> set (i # rest). ProcessedInvoice.client i \<notin> set inheritedKeys)
       \<and> num_sum (map (\<lambda>p. totalBilledCHF (snd p)) (clientSummary (snd st)))
           = totalRevenueCHF (snd st)
       \<longrightarrow> num_sum (map (\<lambda>p. totalBilledCHF (snd p)) (clientSummary (snd st')))
             = totalRevenueCHF (snd st')"
    using s'(8) by (simp add: s1(3,4) sum_updateClient)
  from run con tot inv mon dm dc cli show ?case by blast
qed

subsection \<open>The sort\<close>

lemma set_insertByDate: "set (insertByDate a bs) = insert a (set bs)"
  by (induction bs) auto

lemma set_sortByDate: "set (sortByDate xs) = set xs"
  by (induction xs) (simp_all add: sortByDate_def set_insertByDate)

lemma length_insertByDate: "length (insertByDate a bs) = Suc (length bs)"
  by (induction bs) auto

lemma length_sortByDate: "length (sortByDate xs) = length xs"
  by (induction xs) (simp_all add: sortByDate_def length_insertByDate)

subsection \<open>The aggregation of processed files\<close>

text \<open>
  On invoices built from files the aggregation returns a report: the month of such an
  invoice has at most two characters, and no inherited name is that short.
\<close>

lemma aggregate_files:
  "\<exists>console report.
     aggregate y now1 now2 rates (map processFile files) = Inr (console, report)
     \<and> console = concat (map (\<lambda>f. fst (invoiceTotalCHFOf rates (json f))) files)
     \<and> totalRevenueCHF report = num_sum (map (\<lambda>f. snd (invoiceTotalCHFOf rates (json f))) files)
     \<and> set (invoices report)
         = (\<lambda>f. summaryOf (processFile f) (Num (invoiceTotalOf (json f)))
                   (snd (invoiceTotalCHFOf rates (json f)))) ` set files
     \<and> length (invoices report) = length files
     \<and> num_sum (map (\<lambda>p. totalCHF (snd p)) (monthlyRevenue report)) = totalRevenueCHF report
     \<and> distinct (map fst (monthlyRevenue report))
     \<and> distinct (map fst (clientSummary report))
     \<and> ((\<forall>f \<in> set files. Debtor.name (debtor (json f)) \<notin> set inheritedKeys)
          \<longrightarrow> num_sum (map (\<lambda>p. totalBilledCHF (snd p)) (clientSummary report))
                = totalRevenueCHF report)"
proof -
  let ?st = "([] :: string list, emptyReport y now1 now2)"
  have m: "\<forall>i \<in> set (map processFile files). ProcessedInvoice.month i \<notin> set inheritedKeys"
    by (auto simp add: month_processFile)
  have d: "\<And>f. data (processFile f) = json f"
    "\<And>f. ProcessedInvoice.client (processFile f) = Debtor.name (debtor (json f))"
    by (simp_all add: processFile_def Let_def)
  let ?is = "map processFile files"
  from forEachInvoice_plain [OF m, of rates ?st]
  obtain st' where r: "forEachInvoice rates ?st ?is = Inr st'"
    "fst st' = fst ?st @ concat (map (\<lambda>i. fst (invoiceTotalCHFOf rates (data i))) ?is)"
    "totalRevenueCHF (snd st')
       = foldl num_add (totalRevenueCHF (snd ?st))
           (map (\<lambda>i. snd (invoiceTotalCHFOf rates (data i))) ?is)"
    "invoices (snd st')
       = invoices (snd ?st)
           @ map (\<lambda>i. summaryOf i (Num (invoiceTotalOf (data i)))
                        (snd (invoiceTotalCHFOf rates (data i)))) ?is"
    "num_sum (map (\<lambda>p. totalCHF (snd p)) (monthlyRevenue (snd ?st))) = totalRevenueCHF (snd ?st)
       \<longrightarrow> num_sum (map (\<lambda>p. totalCHF (snd p)) (monthlyRevenue (snd st')))
             = totalRevenueCHF (snd st')"
    "distinct (map fst (monthlyRevenue (snd ?st)))
       \<longrightarrow> distinct (map fst (monthlyRevenue (snd st')))"
    "distinct (map fst (clientSummary (snd ?st)))
       \<longrightarrow> distinct (map fst (clientSummary (snd st')))"
    "(\<forall>i \<in> set ?is. ProcessedInvoice.client i \<notin> set inheritedKeys)
       \<and> num_sum (map (\<lambda>p. totalBilledCHF (snd p)) (clientSummary (snd ?st)))
           = totalRevenueCHF (snd ?st)
       \<longrightarrow> num_sum (map (\<lambda>p. totalBilledCHF (snd p)) (clientSummary (snd st')))
             = totalRevenueCHF (snd st')"
    by blast
  have s: "forEachInvoice rates ?st (map processFile files) = Inr st'"
    "fst st' = concat (map (\<lambda>f. fst (invoiceTotalCHFOf rates (json f))) files)"
    "totalRevenueCHF (snd st')
       = num_sum (map (\<lambda>f. snd (invoiceTotalCHFOf rates (json f))) files)"
    "invoices (snd st')
       = map (\<lambda>f. summaryOf (processFile f) (Num (invoiceTotalOf (json f)))
                     (snd (invoiceTotalCHFOf rates (json f)))) files"
    using r(1-4) by (simp_all add: emptyReport_def num_sum_def d comp_def)
  have t: "num_sum (map (\<lambda>p. totalCHF (snd p)) (monthlyRevenue (snd st'))) = totalRevenueCHF (snd st')"
    "distinct (map fst (monthlyRevenue (snd st')))"
    "distinct (map fst (clientSummary (snd st')))"
    using r(5-7) by (simp_all add: emptyReport_def num_sum_Nil)
  have u: "(\<forall>f \<in> set files. Debtor.name (debtor (json f)) \<notin> set inheritedKeys)
       \<longrightarrow> num_sum (map (\<lambda>p. totalBilledCHF (snd p)) (clientSummary (snd st')))
             = totalRevenueCHF (snd st')"
    using r(8) by (simp add: emptyReport_def num_sum_Nil d)
  have "aggregate y now1 now2 rates (map processFile files)
          = Inr (fst st', (snd st')\<lparr>invoices := sortByDate (invoices (snd st'))\<rparr>)"
    by (simp add: aggregate_def s(1))
  then show ?thesis
    using s(2-4) t u by (simp add: set_sortByDate length_sortByDate)
qed

subsection \<open>The consistency check\<close>

lemma firstMismatch_None:
  "firstMismatch c rest = None
     \<longleftrightarrow> (\<forall>x \<in> set rest. Creditor.name (creditor (data x)) = Creditor.name c
                          \<and> uid (creditor (data x)) = uid c)"
  by (induction rest) (auto simp add: Let_def)

lemma validateCreditors_None:
  "snd (validateCreditors invs) = None
     \<longleftrightarrow> (\<forall>x \<in> set invs.
            Creditor.name (creditor (data x)) = Creditor.name (creditor (data (hd invs)))
            \<and> uid (creditor (data x)) = uid (creditor (data (hd invs))))"
proof (cases invs)
  case Nil
  then show ?thesis by (simp add: validateCreditors_def)
next
  case (Cons first rest)
  show ?thesis
  proof (cases rest)
    case Nil
    with Cons show ?thesis by (simp add: validateCreditors_def)
  next
    case (Cons second rest')
    have "snd (validateCreditors invs) = None
            \<longleftrightarrow> firstMismatch (creditor (data first)) rest = None"
      using \<open>invs = first # rest\<close> Cons
      by (simp add: validateCreditors_def split: option.splits)
    then show ?thesis
      using \<open>invs = first # rest\<close> by (simp add: firstMismatch_None)
  qed
qed

lemma validateCreditors_files:
  "snd (validateCreditors (map processFile files)) = None
     \<longleftrightarrow> (\<forall>x \<in> set files.
            Creditor.name (creditor (json x)) = Creditor.name (creditor (json (hd files)))
            \<and> uid (creditor (json x)) = uid (creditor (json (hd files))))"
proof (cases files)
  case Nil
  then show ?thesis by (simp add: validateCreditors_def)
next
  case (Cons f fs)
  have d: "\<And>f. data (processFile f) = json f"
    by (simp add: processFile_def Let_def)
  show ?thesis
    unfolding validateCreditors_None using Cons by (simp add: d)
qed

lemma generateReport_cases:
  "generateReport y now1 now2 rates files
     = (case snd (validateCreditors (map processFile files)) of
          Some bad \<Rightarrow> (fst (validateCreditors (map processFile files)), Inl (Exit 1))
        | None \<Rightarrow>
            (case aggregate y now1 now2 rates (map processFile files) of
               Inl (console', e) \<Rightarrow>
                 (fst (validateCreditors (map processFile files)) @ console'
                    @ [''Error generating report: '' @ message e], Inl (Exit 1))
             | Inr (console', report) \<Rightarrow>
                 (fst (validateCreditors (map processFile files)) @ console', Inr report)))"
proof -
  obtain c b where v: "validateCreditors (map processFile files) = (c, b)"
    by (cases "validateCreditors (map processFile files)")
  show ?thesis
    unfolding generateReport_def Let_def v by (cases b) (simp_all split: sum.splits prod.splits)
qed

text \<open>
  Claim C4. The run ends with \<open>process.exit(1)\<close>, and so without a report, exactly when
  some invoice differs from the first one in the name or the uid of its creditor; when
  all invoices agree on both, the run goes on to the aggregation and returns its report.
\<close>

theorem generateReport_creditor_mismatch:
  "(if \<forall>x \<in> set files.
         Creditor.name (creditor (json x)) = Creditor.name (creditor (json (hd files)))
         \<and> uid (creditor (json x)) = uid (creditor (json (hd files)))
    then \<exists>console report.
           aggregate y now1 now2 rates (map processFile files) = Inr (console, report)
           \<and> snd (generateReport y now1 now2 rates files) = Inr report
    else snd (generateReport y now1 now2 rates files) = Inl (Exit 1))"
proof -
  from aggregate_files [of y now1 now2 rates files]
  obtain console report
    where a: "aggregate y now1 now2 rates (map processFile files) = Inr (console, report)"
    by blast
  show ?thesis
    using validateCreditors_files [of files]
    by (auto simp add: generateReport_cases a split: option.splits)
qed

lemma sample_run:
  "snd (generateReport ''2025'' ''2025-11-03T10:00:00.000Z'' ''2025-11-03T10:00:01.000Z'' sampleRates
     [sampleFile ''03'' sampleCreditor 100 None, sampleFile ''01'' sampleCreditor 50 (Some ''EUR'')])
   = Inr sampleReport"
  by code_simp

text \<open>Two invoices whose creditors differ in the uid only.\<close>

lemma sample_mismatch:
  "\<not> (\<forall>x \<in> set [sampleFile ''03'' sampleCreditor 100 None,
                   sampleFile ''01'' (sampleCreditor\<lparr>uid := ''CHE-987.654.321''\<rparr>) 50 (Some ''EUR'')].
        Creditor.name (creditor (json x))
          = Creditor.name (creditor (json (hd [sampleFile ''03'' sampleCreditor 100 None,
               sampleFile ''01'' (sampleCreditor\<lparr>uid := ''CHE-987.654.321''\<rparr>) 50 (Some ''EUR'')])))
        \<and> uid (creditor (json x))
          = uid (creditor (json (hd [sampleFile ''03'' sampleCreditor 100 None,
               sampleFile ''01'' (sampleCreditor\<lparr>uid := ''CHE-987.654.321''\<rparr>) 50 (Some ''EUR'')]))))"
  by (simp add: sampleFile_def sampleData_def sampleCreditor_def)

lemma sample_match:
  "\<forall>x \<in> set [sampleFile ''03'' sampleCreditor 100 None, sampleFile ''01'' sampleCreditor 50 (Some ''EUR'')].
     Creditor.name (creditor (json x))
       = Creditor.name (creditor (json (hd [sampleFile ''03'' sampleCreditor 100 None,
            sampleFile ''01'' sampleCreditor 50 (Some ''EUR'')])))
     \<and> uid (creditor (json x))
       = uid (creditor (json (hd [sampleFile ''03'' sampleCreditor 100 None,
            sampleFile ''01'' sampleCreditor 50 (Some ''EUR'')])))"
  by (simp add: sampleFile_def sampleData_def)

text \<open>
  Claim C4 on two invoices whose creditors differ in the uid only, and on the sample run
  where they agree.
\<close>

theorem generateReport_creditor_mismatch_witness:
  "snd (generateReport ''2025'' ''2025-11-03T10:00:00.000Z'' ''2025-11-03T10:00:01.000Z'' sampleRates
     [sampleFile ''03'' sampleCreditor 100 None,
      sampleFile ''01'' (sampleCreditor\<lparr>uid := ''CHE-987.654.321''\<rparr>) 50 (Some ''EUR'')])
   = Inl (Exit 1)
   \<and> snd (generateReport ''2025'' ''2025-11-03T10:00:00.000Z'' ''2025-11-03T10:00:01.000Z'' sampleRates
     [sampleFile ''03'' sampleCreditor 100 None, sampleFile ''01'' sampleCreditor 50 (Some ''EUR'')])
   = Inr sampleReport"
proof -
  have "snd (generateReport ''2025'' ''2025-11-03T10:00:00.000Z'' ''2025-11-03T10:00:01.000Z'' sampleRates
     [sampleFile ''03'' sampleCreditor 100 None,
      sampleFile ''01'' (sampleCreditor\<lparr>uid := ''CHE-987.654.321''\<rparr>) 50 (Some ''EUR'')])
   = Inl (Exit 1)"
    using sample_mismatch
      generateReport_creditor_mismatch [of
        "[sampleFile ''03'' sampleCreditor 100 None,
          sampleFile ''01'' (sampleCreditor\<lparr>uid := ''CHE-987.654.321''\<rparr>) 50 (Some ''EUR'')]"
        "''2025''" "''2025-11-03T10:00:00.000Z''" "''2025-11-03T10:00:01.000Z''" sampleRates]
    by (simp only: if_False)
  moreover have "snd (generateReport ''2025'' ''2025-11-03T10:00:00.000Z'' ''2025-11-03T10:00:01.000Z''
     sampleRates [sampleFile ''03'' sampleCreditor 100 None, sampleFile ''01'' sampleCreditor 50 (Some ''EUR'')])
   = Inr sampleReport"
    using sample_match sample_run
      generateReport_creditor_mismatch [of
        "[sampleFile ''03'' sampleCreditor 100 None, sampleFile ''01'' sampleCreditor 50 (Some ''EUR'')]"
        "''2025''" "''2025-11-03T10:00:00.000Z''" "''2025-11-03T10:00:01.000Z''" sampleRates]
    by simp
  ultimately show ?thesis by simp
qed

text \<open>The console of a run that stops on a mismatch.\<close>

lemma sample_mismatch_console:
  "generateReport ''2025'' ''2025-11-03T10:00:00.000Z'' ''2025-11-03T10:00:01.000Z'' sampleRates
     [sampleFile ''03'' sampleCreditor 100 None,
      sampleFile ''01'' (sampleCreditor\<lparr>uid := ''CHE-987.654.321''\<rparr>) 50 (Some ''EUR'')]
   = ([''Validating creditor consistency across invoices...'',
       ''Error: Critical creditor information is inconsistent across invoices'',
       ''Invoice 2025-03-client.json has creditor: Acme GmbH (CHE-123.456.789)'',
       ''Invoice 2025-01-client.json has creditor: Acme GmbH (CHE-987.654.321)''], Inl (Exit 1))"
  by code_simp

subsection \<open>The fallback of the conversion\<close>

text \<open>A conversion that throws: two lines on the console, and the amount taken 1:1.\<close>

lemma invoiceTotalCHFOf_fallback:
  assumes "convertCurrency (Num (invoiceTotalOf d)) (currencyOf d) ''CHF'' rates = Inl e"
  shows "invoiceTotalCHFOf rates d
           = ([''Warning: '' @ message e,
               ''Using 1:1 rate for '' @ currencyOf d @ '' to CHF as fallback''],
              Num (invoiceTotalOf d))"
proof -
  from assms have "currencyOf d \<noteq> ''CHF''" by (auto simp add: convertCurrency_def)
  with assms show ?thesis by (simp add: invoiceTotalCHFOf_def Let_def)
qed

text \<open>
  Claim C6. When the conversion of an invoice to CHF throws, and the creditors are
  consistent, the run still returns a report: the two warning lines are on the console,
  the summary of the invoice carries the invoice total as its CHF amount, every invoice
  has its summary, and the CHF total of the report counts the invoice 1:1.
\<close>

theorem generateReport_conversion_fallback:
  assumes "f \<in> set files"
    and "convertCurrency (Num (invoiceTotalOf (json f))) (currencyOf (json f)) ''CHF'' rates = Inl e"
    and "\<forall>x \<in> set files.
           Creditor.name (creditor (json x)) = Creditor.name (creditor (json (hd files)))
           \<and> uid (creditor (json x)) = uid (creditor (json (hd files)))"
  shows "\<exists>console rep. generateReport y now1 now2 rates files = (console, Inr rep)
           \<and> ''Warning: '' @ message e \<in> set console
           \<and> ''Using 1:1 rate for '' @ currencyOf (json f) @ '' to CHF as fallback'' \<in> set console
           \<and> summaryOf (processFile f) (Num (invoiceTotalOf (json f))) (Num (invoiceTotalOf (json f)))
                \<in> set (invoices rep)
           \<and> length (invoices rep) = length files
           \<and> snd (invoiceTotalCHFOf rates (json f)) = Num (invoiceTotalOf (json f))
           \<and> totalRevenueCHF rep
               = num_sum (map (\<lambda>i. snd (invoiceTotalCHFOf rates (json i))) files)"
proof -
  note fb = invoiceTotalCHFOf_fallback [OF assms(2)]
  from aggregate_files [of y now1 now2 rates files]
  obtain console report
    where a: "aggregate y now1 now2 rates (map processFile files) = Inr (console, report)"
      and c: "console = concat (map (\<lambda>f. fst (invoiceTotalCHFOf rates (json f))) files)"
      and t: "totalRevenueCHF report
                = num_sum (map (\<lambda>f. snd (invoiceTotalCHFOf rates (json f))) files)"
      and i: "set (invoices report)
                = (\<lambda>f. summaryOf (processFile f) (Num (invoiceTotalOf (json f)))
                          (snd (invoiceTotalCHFOf rates (json f)))) ` set files"
      and l: "length (invoices report) = length files"
    by blast
  from assms(3) have v: "snd (validateCreditors (map processFile files)) = None"
    by (simp add: validateCreditors_files)
  have g: "generateReport y now1 now2 rates files
             = (fst (validateCreditors (map processFile files)) @ console, Inr report)"
    by (simp add: generateReport_cases v a)
  have "set (fst (invoiceTotalCHFOf rates (json f))) \<subseteq> set console"
    unfolding c using assms(1) by auto
  then have w: "''Warning: '' @ message e \<in> set console"
    "''Using 1:1 rate for '' @ currencyOf (json f) @ '' to CHF as fallback'' \<in> set console"
    by (simp_all add: fb)
  have s: "summaryOf (processFile f) (Num (invoiceTotalOf (json f))) (Num (invoiceTotalOf (json f)))
             \<in> set (invoices report)"
    unfolding i using assms(1) fb by force
  show ?thesis
    using g w s l t fb by simp
qed

lemma sample_fallback_hyps:
  "sampleFile ''01'' sampleCreditor 7 (Some ''USD'')
     \<in> set [sampleFile ''03'' sampleCreditor 100 None, sampleFile ''01'' sampleCreditor 7 (Some ''USD'')]"
  "convertCurrency (Num (invoiceTotalOf (json (sampleFile ''01'' sampleCreditor 7 (Some ''USD'')))))
     (currencyOf (json (sampleFile ''01'' sampleCreditor 7 (Some ''USD'')))) ''CHF'' sampleRates
     = Inl (Error ''No conversion rate available for USD to CHF'')"
  "\<forall>x \<in> set [sampleFile ''03'' sampleCreditor 100 None, sampleFile ''01'' sampleCreditor 7 (Some ''USD'')].
     Creditor.name (creditor (json x))
       = Creditor.name (creditor (json (hd [sampleFile ''03'' sampleCreditor 100 None,
            sampleFile ''01'' sampleCreditor 7 (Some ''USD'')])))
     \<and> uid (creditor (json x))
       = uid (creditor (json (hd [sampleFile ''03'' sampleCreditor 100 None,
            sampleFile ''01'' sampleCreditor 7 (Some ''USD'')])))"
    apply simp
   apply code_simp
  apply (simp add: sampleFile_def sampleData_def)
  done

lemma sample_fallback_run:
  "generateReport ''2025'' ''2025-11-03T10:00:00.000Z'' ''2025-11-03T10:00:01.000Z'' sampleRates
     [sampleFile ''03'' sampleCreditor 100 None, sampleFile ''01'' sampleCreditor 7 (Some ''USD'')]
   = ([''Validating creditor consistency across invoices...'',
       ''Critical creditor information is consistent across all invoices'',
       ''Warning: No conversion rate available for USD to CHF'',
       ''Using 1:1 rate for USD to CHF as fallback''],
      Inr (sampleReport
        \<lparr>totalRevenue := [(''CHF'', Number (Num 100)), (''USD'', Number (Num 7))],
         totalRevenueCHF := Num 107,
         monthlyRevenue :=
           [(''03'', \<lparr>total = Num 100, totalCHF = Num 100,
                      byCurrency = [(''CHF'', Number (Num 100))]\<rparr>),
            (''01'', \<lparr>total = Num 7, totalCHF = Num 7,
                      byCurrency = [(''USD'', Number (Num 7))]\<rparr>)],
         clientSummary :=
           [(''Client AG'', \<lparr>totalBilled = Num 107, totalBilledCHF = Num 107, invoiceCount = 2,
                              currency = ''CHF''\<rparr>)],
         invoices :=
           [summaryOf (processFile (sampleFile ''01'' sampleCreditor 7 (Some ''USD''))) (Num 7) (Num 7),
            summaryOf (processFile (sampleFile ''03'' sampleCreditor 100 None)) (Num 100) (Num 100)]\<rparr>))"
  by code_simp

text \<open>Claim C6 on a run with one invoice in USD, for which the table has no rate.\<close>

theorem generateReport_conversion_fallback_witness:
  "sampleFile ''01'' sampleCreditor 7 (Some ''USD'')
     \<in> set [sampleFile ''03'' sampleCreditor 100 None, sampleFile ''01'' sampleCreditor 7 (Some ''USD'')]
   \<and> convertCurrency (Num (invoiceTotalOf (json (sampleFile ''01'' sampleCreditor 7 (Some ''USD'')))))
        (currencyOf (json (sampleFile ''01'' sampleCreditor 7 (Some ''USD'')))) ''CHF'' sampleRates
        = Inl (Error ''No conversion rate available for USD to CHF'')
   \<and> (\<exists>console rep.
         generateReport ''2025'' ''2025-11-03T10:00:00.000Z'' ''2025-11-03T10:00:01.000Z'' sampleRates
           [sampleFile ''03'' sampleCreditor 100 None, sampleFile ''01'' sampleCreditor 7 (Some ''USD'')]
           = (console, Inr rep)
         \<and> ''Warning: No conversion rate available for USD to CHF'' \<in> set console
         \<and> ''Using 1:1 rate for USD to CHF as fallback'' \<in> set console
         \<and> summaryOf (processFile (sampleFile ''01'' sampleCreditor 7 (Some ''USD''))) (Num 7) (Num 7)
              \<in> set (invoices rep)
         \<and> length (invoices rep) = 2
         \<and> totalRevenueCHF rep = Num 107)"
  using sample_fallback_hyps(1,2) sample_fallback_run
    generateReport_conversion_fallback [OF sample_fallback_hyps, of "''2025''"
      "''2025-11-03T10:00:00.000Z''" "''2025-11-03T10:00:01.000Z''"]
  by simp

subsection \<open>The agreement of the totals\<close>

text \<open>
  In the report of a run, the CHF totals of the months add up to \<open>totalRevenueCHF\<close>, and
  so do the CHF totals of the clients when no debtor bears the name of an inherited
  property; each month and each client has one entry. (Both sides are \<open>NaN\<close> when a
  conversion gave \<open>NaN\<close>.)
\<close>

lemma generateReport_totals_agree_plain_names:
  assumes "snd (generateReport y now1 now2 rates files) = Inr rep"
  shows "num_sum (map (\<lambda>p. totalCHF (snd p)) (monthlyRevenue rep)) = totalRevenueCHF rep"
    and "distinct (map fst (monthlyRevenue rep))"
    and "distinct (map fst (clientSummary rep))"
    and "(\<forall>f \<in> set files. Debtor.name (debtor (json f)) \<notin> set inheritedKeys)
           \<Longrightarrow> num_sum (map (\<lambda>p. totalBilledCHF (snd p)) (clientSummary rep))
                 = totalRevenueCHF rep"
proof -
  from aggregate_files [of y now1 now2 rates files]
  obtain console report
    where a: "aggregate y now1 now2 rates (map processFile files) = Inr (console, report)"
      and m: "num_sum (map (\<lambda>p. totalCHF (snd p)) (monthlyRevenue report)) = totalRevenueCHF report"
      and d: "distinct (map fst (monthlyRevenue report))" "distinct (map fst (clientSummary report))"
      and c: "(\<forall>f \<in> set files. Debtor.name (debtor (json f)) \<notin> set inheritedKeys)
                \<longrightarrow> num_sum (map (\<lambda>p. totalBilledCHF (snd p)) (clientSummary report))
                      = totalRevenueCHF report"
    by blast
  from assms have "rep = report"
    by (auto simp add: generateReport_cases a split: option.splits)
  with m d c show
    "num_sum (map (\<lambda>p. totalCHF (snd p)) (monthlyRevenue rep)) = totalRevenueCHF rep"
    "distinct (map fst (monthlyRevenue rep))"
    "distinct (map fst (clientSummary rep))"
    "(\<forall>f \<in> set files. Debtor.name (debtor (json f)) \<notin> set inheritedKeys)
           \<Longrightarrow> num_sum (map (\<lambda>p. totalBilledCHF (snd p)) (clientSummary rep))
                 = totalRevenueCHF rep"
    by simp_all
qed

text \<open>
  Claim C3 fails on the code. One invoice of 100 CHF for a debtor named
  \<open>constructor\<close>: the run returns a report whose \<open>totalRevenueCHF\<close> is 100 and whose
  \<open>clientSummary\<close> has no entry, so that the CHF totals of the clients add up to 0,
  while the CHF totals of the months add up to 100.
\<close>

theorem generateReport_inherited_client_name:
  "Debtor.name (debtor (json (sampleFileFor ''constructor'' ''03'' 100 None))) = ''constructor''
   \<and> (case snd (generateReport ''2025'' ''2025-11-03T10:00:00.000Z'' ''2025-11-03T10:00:01.000Z''
                  sampleRates [sampleFileFor ''constructor'' ''03'' 100 None]) of
        Inl x \<Rightarrow> False
      | Inr report \<Rightarrow>
          totalRevenueCHF report = Num 100
          \<and> clientSummary report = []
          \<and> num_sum (map (\<lambda>p. totalBilledCHF (snd p)) (clientSummary report)) = Num 0
          \<and> num_sum (map (\<lambda>p. totalCHF (snd p)) (monthlyRevenue report)) = Num 100)"
  by code_simp

text \<open>
  The same lookup in the conversion: an invoice in the currency \<open>constructor\<close> is
  converted to \<open>NaN\<close> without a warning, and \<open>totalRevenueCHF\<close> is \<open>NaN\<close>.
\<close>

lemma generateReport_inherited_currency:
  "generateReport ''2025'' ''2025-11-03T10:00:00.000Z'' ''2025-11-03T10:00:01.000Z''
     sampleRates [sampleFile ''03'' sampleCreditor 100 (Some ''constructor'')]
   = ([], Inr (sampleReport
        \<lparr>totalRevenue := [(''constructor'', Text)],
         totalRevenueCHF := NaN,
         monthlyRevenue :=
           [(''03'', \<lparr>total = Num 100, totalCHF = NaN, byCurrency = [(''constructor'', Text)]\<rparr>)],
         clientSummary :=
           [(''Client AG'', \<lparr>totalBilled = Num 100, totalBilledCHF = NaN, invoiceCount = 1,
                              currency = ''constructor''\<rparr>)],
         invoices :=
           [summaryOf (processFile (sampleFile ''03'' sampleCreditor 100 (Some ''constructor'')))
              (Num 100) NaN]\<rparr>))"
  by code_simp

text \<open>
  A month that is an inherited name, which no file name gives: the loop stops with a
  \<open>TypeError\<close>.
\<close>

lemma processInvoice_inherited_month:
  "processInvoice sampleRates ([], emptyReport ''2025'' '''' '''')
     ((processFile (sampleFile ''03'' sampleCreditor 100 None))\<lparr>ProcessedInvoice.month := ''toString''\<rparr>)
   = Inl ([], TypeError (''Cannot read properties of undefined (reading '' @ [CHR 0x27] @ ''CHF''
                           @ [CHR 0x27] @ '')''))"
  by code_simp

section \<open>Properties of the invoice number\<close>

lemma matchYearMonth_prefix:
  assumes "length y = 4" "list_all isDigit y" "length m = 2" "list_all isDigit m"
  shows "matchYearMonth (y @ ''-'' @ m @ rest) = Some (y, m)"
  using assms by (simp add: matchYearMonth_def nth_append)

lemma sliceLast2_four: "length y = 4 \<Longrightarrow> sliceLast2 y = drop 2 y"
  by (simp add: sliceLast2_def)

lemma hexDigitValue_nonneg: "isHexDigit c \<Longrightarrow> 0 \<le> hexDigitValue c"
  by (auto simp add: isHexDigit_def hexDigitValue_def isDigit_def)

lemma hex_value_nonneg: "list_all isHexDigit s \<Longrightarrow> 0 \<le> hex_value s"
proof (induction s rule: rev_induct)
  case Nil
  show ?case by (simp add: hex_value_def)
next
  case (snoc c s)
  then have "0 \<le> hex_value s" "0 \<le> hexDigitValue c"
    by (simp_all add: hexDigitValue_nonneg)
  then show ?case by (simp add: hex_value_def)
qed

lemma parseInt16_hex:
  assumes "s \<noteq> []" "list_all isHexDigit s"
  shows "parseInt16 s = Some (hex_value s)"
proof -
  from assms(2) have tw: "takeWhile isHexDigit s = s"
    by (simp add: list_all_iff)
  show ?thesis
    unfolding parseInt16_def Let_def tw using assms(1) by simp
qed

lemma suffix_props:
  assumes "0 \<le> k" "k < 1000"
  defines "sfx \<equiv> padStart 3 (CHR ''0'') (toString_int k)"
  shows "length sfx = 3" and "list_all isDigit sfx" and "decimal_value sfx = k"
proof -
  from assms(1,2) have k: "toString_int k = toString_nat (nat k)" "nat k < 1000"
    by (simp_all add: toString_int_def)
  show "length sfx = 3"
    unfolding sfx_def k(1) by (rule padStart_length) (rule length_toString_nat_lt1000 [OF k(2)])
  show "list_all isDigit sfx"
    unfolding sfx_def k(1) by (rule padStart_digits) (rule toString_nat_digits)
  show "decimal_value sfx = k"
    unfolding sfx_def k(1) using assms(1)
    by (simp add: decimal_value_padStart decimal_value_toString_nat)
qed

lemma hashSuffix_props:
  assumes "8 \<le> length h" "list_all isHexDigit (take 8 h)"
  shows "length (hashSuffix h) = 3" and "list_all isDigit (hashSuffix h)"
    and "decimal_value (hashSuffix h) = hex_value (take 8 h) mod 1000"
proof -
  from assms(1) have "take 8 h \<noteq> []" by auto
  then have p: "parseInt16 (take 8 h) = Some (hex_value (take 8 h))"
    using assms(2) by (rule parseInt16_hex)
  have m: "0 \<le> hex_value (take 8 h) mod 1000" "hex_value (take 8 h) mod 1000 < 1000"
    by simp_all
  have e: "hashSuffix h = padStart 3 (CHR ''0'') (toString_int (hex_value (take 8 h) mod 1000))"
    by (simp add: hashSuffix_def p)
  show "length (hashSuffix h) = 3" "list_all isDigit (hashSuffix h)"
    "decimal_value (hashSuffix h) = hex_value (take 8 h) mod 1000"
    unfolding e using suffix_props [OF m] by simp_all
qed

lemma generateInvoiceNumberFromFile_match:
  assumes "number d = None \<or> number d = Some []"
    and "matchYearMonth (lastSegment filePath) = Some (y, m)"
  shows "generateInvoiceNumberFromFile stringify sha256hex fullYear monthIndex filePath d
           = sliceLast2 y @ m @ ''-'' @ hashSuffix (sha256hex (stringify d))"
  using assms by (auto simp add: generateInvoiceNumberFromFile_def Let_def)

text \<open>
  Claim C9. Without an explicit number, and with a file name that starts with four
  digits, a hyphen and two digits, the invoice number is the last two digits of the year,
  the month, a hyphen, and three decimal digits whose value is the first eight
  hexadecimal characters of the digest, read in base 16, modulo 1000. Any invoice data
  with the same serialization gives the same number, whatever the current date.
\<close>

theorem generateInvoiceNumberFromFile_derived:
  assumes "number d = None \<or> number d = Some []"
    and "lastSegment filePath = y @ ''-'' @ m @ rest"
    and "length y = 4" and "list_all isDigit y" and "length m = 2" and "list_all isDigit m"
    and "8 \<le> length (sha256hex (stringify d))"
    and "list_all isHexDigit (take 8 (sha256hex (stringify d)))"
  shows "(\<exists>suffix.
            generateInvoiceNumberFromFile stringify sha256hex fullYear monthIndex filePath d
              = drop 2 y @ m @ ''-'' @ suffix
            \<and> length suffix = 3 \<and> list_all isDigit suffix
            \<and> decimal_value suffix = hex_value (take 8 (sha256hex (stringify d))) mod 1000)
         \<and> (\<forall>d' fullYear' monthIndex'.
               (number d' = None \<or> number d' = Some []) \<and> stringify d' = stringify d
               \<longrightarrow> generateInvoiceNumberFromFile stringify sha256hex fullYear' monthIndex' filePath d'
                     = generateInvoiceNumberFromFile stringify sha256hex fullYear monthIndex filePath d)"
proof -
  have mm: "matchYearMonth (lastSegment filePath) = Some (y, m)"
    unfolding assms(2) using assms(3-6) by (rule matchYearMonth_prefix)
  have g: "generateInvoiceNumberFromFile stringify sha256hex fullYear monthIndex filePath d
             = drop 2 y @ m @ ''-'' @ hashSuffix (sha256hex (stringify d))"
    using generateInvoiceNumberFromFile_match [OF assms(1) mm] assms(3)
    by (simp add: sliceLast2_four)
  have "\<exists>suffix.
            generateInvoiceNumberFromFile stringify sha256hex fullYear monthIndex filePath d
              = drop 2 y @ m @ ''-'' @ suffix
            \<and> length suffix = 3 \<and> list_all isDigit suffix
            \<and> decimal_value suffix = hex_value (take 8 (sha256hex (stringify d))) mod 1000"
    using g hashSuffix_props [OF assms(7,8)] by blast
  moreover have "\<forall>d' fullYear' monthIndex'.
               (number d' = None \<or> number d' = Some []) \<and> stringify d' = stringify d
               \<longrightarrow> generateInvoiceNumberFromFile stringify sha256hex fullYear' monthIndex' filePath d'
                     = generateInvoiceNumberFromFile stringify sha256hex fullYear monthIndex filePath d"
    using generateInvoiceNumberFromFile_match [OF _ mm] assms(1) by simp
  ultimately show ?thesis by blast
qed

lemma sample_number_hyps:
  "number (sampleData sampleCreditor 100 None) = None \<or> number (sampleData sampleCreditor 100 None) = Some []"
  "lastSegment ''invoices/2025-03-acme.json'' = ''2025'' @ ''-'' @ ''03'' @ ''-acme.json''"
  "length ''2025'' = 4" "list_all isDigit ''2025''" "length ''03'' = 2" "list_all isDigit ''03''"
  "8 \<le> length (sampleSha256hex (sampleStringify (sampleData sampleCreditor 100 None)))"
  "list_all isHexDigit (take 8 (sampleSha256hex (sampleStringify (sampleData sampleCreditor 100 None))))"
  by code_simp+

text \<open>Claim C9 on the file \<open>2025-03-acme.json\<close>: the number is \<open>2503-451\<close>.\<close>

theorem generateInvoiceNumberFromFile_derived_witness:
  "lastSegment ''invoices/2025-03-acme.json'' = ''2025-03-acme.json''
   \<and> number (sampleData sampleCreditor 100 None) = None
   \<and> list_all isHexDigit (take 8 (sampleSha256hex (sampleStringify (sampleData sampleCreditor 100 None))))
   \<and> hex_value (take 8 (sampleSha256hex (sampleStringify (sampleData sampleCreditor 100 None)))) = 1142124451
   \<and> generateInvoiceNumberFromFile sampleStringify sampleSha256hex 2026 10 ''invoices/2025-03-acme.json''
        (sampleData sampleCreditor 100 None) = ''2503-451''"
proof -
  have r: "generateInvoiceNumberFromFile sampleStringify sampleSha256hex 2026 10 ''invoices/2025-03-acme.json''
        (sampleData sampleCreditor 100 None) = ''2503-451''"
   and v: "hex_value (take 8 (sampleSha256hex (sampleStringify (sampleData sampleCreditor 100 None)))) = 1142124451"
   and n: "number (sampleData sampleCreditor 100 None) = None"
    by code_simp+
  show ?thesis
    using generateInvoiceNumberFromFile_derived [where stringify = sampleStringify
        and sha256hex = sampleSha256hex and d = "sampleData sampleCreditor 100 None"
        and fullYear = 2026 and monthIndex = 10, OF sample_number_hyps] r v n
      sample_number_hyps(2,8)
    by simp
qed

end
